theory Spec2Isabelle
  imports
    Main
    "HOL-Library.Char_ord"
    "HOL-Library.List_Lexorder"
    "HOL-Library.Option_ord"
    "HOL-Library.Multiset"
begin

section \<open>Text primitives of the source language\<close>

text \<open>
  Text values (Python \<open>str\<close>) are modelled as \<^typ>\<open>string\<close>, one \<^typ>\<open>char\<close> per code
  point, so the model covers text whose code points lie below 256; \<open>length\<close> then counts
  what \<open>len\<close> counts. The functions below follow the documented behaviour of the
  corresponding \<open>str\<close> methods on that range.
\<close>

definition startswith :: "string \<Rightarrow> string \<Rightarrow> bool" where
  "startswith s p = (take (length p) s = p)"

definition endswith :: "string \<Rightarrow> string \<Rightarrow> bool" where
  "endswith s p = (length p \<le> length s \<and> drop (length s - length p) s = p)"

text \<open>
  \<open>partition_at sep s\<close> cuts \<open>s\<close> at the leftmost occurrence of \<open>sep\<close>: the text before
  it and the text after it; \<open>None\<close> when \<open>sep\<close> does not occur.
\<close>

fun partition_at :: "string \<Rightarrow> string \<Rightarrow> (string \<times> string) option" where
  "partition_at sep [] = (if sep = [] then Some ([], []) else None)"
| "partition_at sep (c # cs) =
     (if startswith (c # cs) sep then Some ([], drop (length sep) (c # cs))
      else map_option (\<lambda>(b, a). (c # b, a)) (partition_at sep cs))"

text \<open>The operator \<open>sub in s\<close> on text.\<close>

definition contains :: "string \<Rightarrow> string \<Rightarrow> bool" where
  "contains s sub = (partition_at sub s \<noteq> None)"

lemma startswith_length: "startswith s p \<Longrightarrow> length p \<le> length s"
proof -
  assume "startswith s p"
  then have "length (take (length p) s) = length p"
    by (simp add: startswith_def)
  then show ?thesis by simp
qed

lemma partition_at_length:
  "partition_at sep s = Some (b, a) \<Longrightarrow> length b + length sep + length a = length s"
proof (induction s arbitrary: b a)
  case Nil
  then show ?case by (simp split: if_splits)
next
  case (Cons c cs)
  show ?case
  proof (cases "startswith (c # cs) sep")
    case True
    from startswith_length [OF True] have le: "length sep \<le> Suc (length cs)" by simp
    from True Cons.prems have "b = []" "a = drop (length sep) (c # cs)" by simp_all
    with le show ?thesis by simp
  next
    case False
    with Cons.prems obtain b' where b': "partition_at sep cs = Some (b', a)" "b = c # b'"
      by (cases "partition_at sep cs") auto
    from Cons.IH [OF b'(1)] b'(2) show ?thesis by simp
  qed
qed

text \<open>
  \<open>s.split(sep)\<close>: the pieces between the non-overlapping occurrences of \<open>sep\<close>, found
  left to right. The source splits on non-empty literals only; for an empty separator
  Python raises \<open>ValueError\<close>, which the model marks by the empty list (a split never
  returns one otherwise).
\<close>

function split_str :: "string \<Rightarrow> string \<Rightarrow> string list" where
  "split_str sep s =
     (if sep = [] then []
      else case partition_at sep s of
             None \<Rightarrow> [s]
           | Some (b, a) \<Rightarrow> b # split_str sep a)"
  by pat_completeness auto
termination
proof (relation "measure (\<lambda>(sep, s). length s)")
  show "wf (measure (\<lambda>(sep, s). length s))" by simp
next
  fix sep s :: string and x2 x y
  assume ne: "sep \<noteq> []" and p: "partition_at sep s = Some x2" and xy: "(x, y) = x2"
  from p xy have "partition_at sep s = Some (x, y)" by simp
  from partition_at_length [OF this] have "length x + length sep + length y = length s" .
  moreover from ne have "0 < length sep" by simp
  ultimately have "length y < length s" by linarith
  then show "((sep, y), (sep, s)) \<in> measure (\<lambda>(sep, s). length s)" by simp
qed

declare split_str.simps [simp del]

text \<open>
  The exceptions that leave a library call in the source and are not turned into an
  unset field: the markup library refusing a query (\<open>TypeError\<close>), the store driver
  refusing a truth test (\<open>NotImplementedError\<close>), the store not answering
  (\<open>StoreError\<close>), and the feature library refusing a geometry (\<open>GeometryError\<close>).
\<close>

datatype py_error = TypeError | NotImplementedError | StoreError | GeometryError

text \<open>Indexing a list with a non-negative index; \<open>None\<close> is Python's \<open>IndexError\<close>.\<close>

definition item :: "'a list \<Rightarrow> nat \<Rightarrow> 'a option" where
  "item xs i = (if i < length xs then Some (xs ! i) else None)"

text \<open>
  \<open>str.strip()\<close> removes leading and trailing whitespace; below code point 256 the
  whitespace characters are 9 to 13, 28 to 32, 133 and 160.
\<close>

definition is_space :: "char \<Rightarrow> bool" where
  "is_space c = (of_char c \<in> {9, 10, 11, 12, 13, 28, 29, 30, 31, 32, 133, 160 :: nat})"

definition strip :: "string \<Rightarrow> string" where
  "strip s = rev (dropWhile is_space (rev (dropWhile is_space s)))"

definition is_ascii_digit :: "char \<Rightarrow> bool" where
  "is_ascii_digit c = (48 \<le> (of_char c :: nat) \<and> (of_char c :: nat) \<le> 57)"

text \<open>
  \<open>str.isdigit()\<close>: non-empty and every character a digit. Below code point 256 these are
  the ten ASCII digits and the superscripts two, three and one (178, 179, 185), which
  \<open>int\<close> does not accept.
\<close>

definition isdigit_char :: "char \<Rightarrow> bool" where
  "isdigit_char c = (is_ascii_digit c \<or> of_char c \<in> {178, 179, 185 :: nat})"

definition isdigit :: "string \<Rightarrow> bool" where
  "isdigit s = (s \<noteq> [] \<and> list_all isdigit_char s)"

definition digit_value :: "char \<Rightarrow> nat" where
  "digit_value c = of_char c - 48"

definition decimal :: "string \<Rightarrow> nat" where
  "decimal s = foldl (\<lambda>n c. 10 * n + digit_value c) 0 s"

text \<open>
  \<open>int(s)\<close> on text: surrounding whitespace is dropped, one sign is allowed, and the
  digits may be grouped by single underscores; more than 4300 digits are refused (the
  interpreter's default limit). \<open>None\<close> is \<open>ValueError\<close>.
\<close>

definition int_body :: "string \<Rightarrow> nat option" where
  "int_body b =
     (if list_all (\<lambda>g. g \<noteq> [] \<and> list_all is_ascii_digit g) (split_str ''_'' b) \<and>
         length (filter (\<lambda>c. c \<noteq> CHR ''_'') b) \<le> 4300
      then Some (decimal (filter (\<lambda>c. c \<noteq> CHR ''_'') b))
      else None)"

definition py_int :: "string \<Rightarrow> int option" where
  "py_int s =
     (case strip s of
        [] \<Rightarrow> None
      | c # cs \<Rightarrow>
          if c = CHR ''-'' then map_option (\<lambda>n. - int n) (int_body cs)
          else if c = CHR ''+'' then map_option int (int_body cs)
          else map_option int (int_body (c # cs)))"

section \<open>Dates and times\<close>

text \<open>
  A \<open>datetime\<close> value: its calendar fields as written, and its offset from UTC in
  seconds (\<open>None\<close> for a naive value).
\<close>

record datetime =
  year :: nat
  month :: nat
  day :: nat
  hour :: nat
  minute :: nat
  second :: nat
  microsecond :: nat
  tzinfo :: "int option"

definition is_leap :: "nat \<Rightarrow> bool" where
  "is_leap y = (y mod 4 = 0 \<and> (0 < y mod 100 \<or> y mod 400 = 0))"

definition days_in_month :: "nat \<Rightarrow> nat \<Rightarrow> nat" where
  "days_in_month y m =
     (if m = 2 then (if is_leap y then 29 else 28)
      else if m = 4 \<or> m = 6 \<or> m = 9 \<or> m = 11 then 30
      else 31)"

text \<open>
  \<open>datetime.strptime(s, '%Y%m%d%H')\<close> for the ten-character argument that the caller's
  length test leaves (\<open>dtg_val[:-1]\<close> of an eleven-character value). The directives
  match \<open>\d\d\d\d\<close>, \<open>1[0-2]|0[1-9]|[1-9]\<close>, \<open>3[0-1]|[1-2]\d|0[1-9]|[1-9]| [1-9]\<close> and
  \<open>2[0-3]|[0-1]\d|\d\<close>, and the whole text must be consumed, so on ten characters every
  field after the year takes two; the date must exist. \<open>None\<close> is \<open>ValueError\<close>.
\<close>

definition two_digits :: "string \<Rightarrow> nat option" where
  "two_digits s =
     (case s of
        [a, b] \<Rightarrow>
          if is_ascii_digit a \<and> is_ascii_digit b
          then Some (10 * digit_value a + digit_value b) else None
      | _ \<Rightarrow> None)"

definition year_field :: "string \<Rightarrow> nat option" where
  "year_field s =
     (if length s = 4 \<and> list_all is_ascii_digit s then Some (decimal s) else None)"

definition month_field :: "string \<Rightarrow> nat option" where
  "month_field s =
     (case two_digits s of
        Some v \<Rightarrow> if 1 \<le> v \<and> v \<le> 12 then Some v else None
      | None \<Rightarrow> None)"

definition day_field :: "string \<Rightarrow> nat option" where
  "day_field s =
     (case two_digits s of
        Some v \<Rightarrow> if 1 \<le> v \<and> v \<le> 31 then Some v else None
      | None \<Rightarrow>
          (case s of
             [a, b] \<Rightarrow>
               if a = CHR '' '' \<and> is_ascii_digit b \<and> 1 \<le> digit_value b
               then Some (digit_value b) else None
           | _ \<Rightarrow> None))"

definition hour_field :: "string \<Rightarrow> nat option" where
  "hour_field s =
     (case two_digits s of
        Some v \<Rightarrow> if v \<le> 23 then Some v else None
      | None \<Rightarrow> None)"

definition strptime_YmdH :: "string \<Rightarrow> datetime option" where
  "strptime_YmdH s =
     (if length s = 10 then
        (case year_field (take 4 s) of
           None \<Rightarrow> None
         | Some y \<Rightarrow>
        (case month_field (take 2 (drop 4 s)) of
           None \<Rightarrow> None
         | Some m \<Rightarrow>
        (case day_field (take 2 (drop 6 s)) of
           None \<Rightarrow> None
         | Some d \<Rightarrow>
        (case hour_field (drop 8 s) of
           None \<Rightarrow> None
         | Some h \<Rightarrow>
             if 1 \<le> y \<and> d \<le> days_in_month y m
             then Some \<lparr>year = y, month = m, day = d, hour = h, minute = 0, second = 0,
                         microsecond = 0, tzinfo = None\<rparr>
             else None))))
      else None)"

text \<open>
  \<open>dt.strftime("%Y-%m-%dT%H:%M:%SZ")\<close>: the fields of \<open>dt\<close> as they stand, followed by
  the letter Z; the offset of \<open>dt\<close> plays no part in it. Month, day, hour, minute and
  second are padded to two digits. The year is written by the C library of the
  platform, which does not pad it: a year below 1000 comes out with fewer than four
  digits.
\<close>

definition digit_char :: "nat \<Rightarrow> char" where
  "digit_char d = char_of (48 + d)"

definition fmt2 :: "nat \<Rightarrow> string" where
  "fmt2 n = [digit_char (n div 10 mod 10), digit_char (n mod 10)]"

definition fmt4 :: "nat \<Rightarrow> string" where
  "fmt4 n = [digit_char (n div 1000 mod 10), digit_char (n div 100 mod 10),
             digit_char (n div 10 mod 10), digit_char (n mod 10)]"

definition fmt_year :: "nat \<Rightarrow> string" where
  "fmt_year y =
     (if y < 10 then [digit_char y]
      else if y < 100 then fmt2 y
      else if y < 1000
      then [digit_char (y div 100), digit_char (y div 10 mod 10), digit_char (y mod 10)]
      else fmt4 y)"

definition strftime_iso :: "datetime \<Rightarrow> string" where
  "strftime_iso dt =
     fmt_year (year dt) @ ''-'' @ fmt2 (month dt) @ ''-'' @ fmt2 (day dt) @ ''T'' @
     fmt2 (hour dt) @ '':'' @ fmt2 (minute dt) @ '':'' @ fmt2 (second dt) @ ''Z''"

section \<open>Field extraction from a placemark description (load\_track\_data.py)\<close>

text \<open>The warnings the extraction prints, with the placemark number they carry.\<close>

datatype log_line =
    WarnCoordinates nat string
  | WarnDTGFormat nat string
  | WarnDTGParse nat
  | WarnSkipped nat

definition DTG_MARKER :: string where
  "DTG_MARKER = ''DTG </B></td><td>''"

definition INTENSITY_MARKER :: string where
  "INTENSITY_MARKER = ''Intensity </B></td><td>''"

definition MSLP_MARKER :: string where
  "MSLP_MARKER = ''MSLP </B></td><td>''"

text \<open>
  The text the source calls \<open>dtg_val\<close>: \<open>desc_text.split(marker)[1].split('</td>')[0].strip()\<close>.
  An \<open>IndexError\<close> would be \<open>None\<close>.
\<close>

definition dtg_value :: "string \<Rightarrow> string option" where
  "dtg_value desc_text =
     (case item (split_str DTG_MARKER desc_text) 1 of
        None \<Rightarrow> None
      | Some dtg_part \<Rightarrow> map_option strip (item (split_str ''</td>'' dtg_part) 0))"

text \<open>
  Lines 153 to 165. Every exception inside the \<open>try\<close> is caught and reported by the
  second warning; the timestamp then stays unset.
\<close>

definition extract_timestamp :: "nat \<Rightarrow> string \<Rightarrow> datetime option \<times> log_line list" where
  "extract_timestamp n desc_text =
     (if contains desc_text DTG_MARKER then
        (case dtg_value desc_text of
           None \<Rightarrow> (None, [WarnDTGParse n])
         | Some dtg_val \<Rightarrow>
             if endswith dtg_val ''Z'' \<and> length dtg_val = 11 then
               (case strptime_YmdH (butlast dtg_val) of
                  None \<Rightarrow> (None, [WarnDTGParse n])
                | Some dt_naive \<Rightarrow> (Some (dt_naive\<lparr>tzinfo := Some 0\<rparr>), []))
             else (None, [WarnDTGFormat n dtg_val]))
      else (None, []))"

text \<open>Lines 167 to 173: errors are ignored and leave the field unset.\<close>

definition extract_wind :: "string \<Rightarrow> int option" where
  "extract_wind desc_text =
     (if contains desc_text INTENSITY_MARKER then
        (case item (split_str INTENSITY_MARKER desc_text) 1 of
           None \<Rightarrow> None
         | Some intensity_part \<Rightarrow>
             (case item (split_str ''</td>'' intensity_part) 0 of
                None \<Rightarrow> None
              | Some piece \<Rightarrow>
                  let intensity_val = strip piece
                  in if intensity_val \<noteq> [] then py_int intensity_val else None))
      else None)"

text \<open>Lines 175 to 182.\<close>

definition extract_pressure :: "string \<Rightarrow> int option" where
  "extract_pressure desc_text =
     (if contains desc_text MSLP_MARKER then
        (case item (split_str MSLP_MARKER desc_text) 1 of
           None \<Rightarrow> None
         | Some pressure_part \<Rightarrow>
             (case (if contains pressure_part '' mb</td>''
                    then item (split_str '' mb</td>'' pressure_part) 0
                    else item (split_str ''</td>'' pressure_part) 0) of
                None \<Rightarrow> None
              | Some piece \<Rightarrow>
                  let pressure_val = strip piece
                  in if pressure_val \<noteq> [] \<and> isdigit pressure_val
                     then py_int pressure_val else None))
      else None)"

section \<open>Markup documents and the path queries of the extraction\<close>

text \<open>
  A parsed document as the markup library presents it: an element carries its resolved
  namespace URI (\<open>None\<close> when it is in no namespace), its local name, the namespace
  declarations written on it (prefix, \<open>None\<close> for the default one, and URI, in the order
  declared) and its child nodes; text is a node of its own.
\<close>

datatype xml =
    Element "string option" string "(string option \<times> string) list" "xml list"
  | Text string

text \<open>\<open>root.nsmap\<close>: the root has no ancestors, so these are its own declarations.\<close>

fun nsmap :: "xml \<Rightarrow> (string option \<times> string) list" where
  "nsmap (Element n t d cs) = d"
| "nsmap (Text s) = []"

fun is_element :: "string option \<Rightarrow> string \<Rightarrow> xml \<Rightarrow> bool" where
  "is_element q name (Element n t d cs) = (n = q \<and> t = name)"
| "is_element q name (Text s) = False"

fun descendants_or_self :: "xml \<Rightarrow> xml list" where
  "descendants_or_self (Element n t d cs) =
     Element n t d cs # concat (map descendants_or_self cs)"
| "descendants_or_self (Text s) = [Text s]"

text \<open>
  \<open>root.xpath('//kml:Placemark', namespaces={'kml': uri})\<close> is \<open>xpath_placemarks (Some uri)\<close>
  and \<open>root.xpath('//Placemark')\<close> is \<open>xpath_placemarks None\<close>: the elements of the document
  with that name in that namespace (in none, for the unqualified query), in document
  order.
\<close>

definition xpath_placemarks :: "string option \<Rightarrow> xml \<Rightarrow> xml list" where
  "xpath_placemarks q root = filter (is_element q ''Placemark'') (descendants_or_self root)"

text \<open>
  \<open>pm_elem.xpath('.//Point/coordinates/text()')\<close>, qualified or not: the text nodes, in
  document order, whose parent is a \<open>coordinates\<close> element whose parent is a \<open>Point\<close>
  element below \<open>pm_elem\<close>. The walk carries whether the parent of the node is such a
  \<open>Point\<close>, and whether it is such a \<open>coordinates\<close>.
\<close>

fun coordinates_walk :: "string option \<Rightarrow> bool \<Rightarrow> bool \<Rightarrow> xml \<Rightarrow> string list" where
  "coordinates_walk q in_point in_coordinates (Text s) = (if in_coordinates then [s] else [])"
| "coordinates_walk q in_point in_coordinates (Element n t d cs) =
     concat (map (coordinates_walk q (n = q \<and> t = ''Point'')
                    (in_point \<and> n = q \<and> t = ''coordinates'')) cs)"

fun xpath_coordinates_text :: "string option \<Rightarrow> xml \<Rightarrow> string list" where
  "xpath_coordinates_text q (Element n t d cs) =
     concat (map (coordinates_walk q False False) cs)"
| "xpath_coordinates_text q (Text s) = []"

text \<open>\<open>pm_elem.xpath('.//description/text()')\<close>, qualified or not.\<close>

fun description_walk :: "string option \<Rightarrow> bool \<Rightarrow> xml \<Rightarrow> string list" where
  "description_walk q in_description (Text s) = (if in_description then [s] else [])"
| "description_walk q in_description (Element n t d cs) =
     concat (map (description_walk q (n = q \<and> t = ''description'')) cs)"

fun xpath_description_text :: "string option \<Rightarrow> xml \<Rightarrow> string list" where
  "xpath_description_text q (Element n t d cs) = concat (map (description_walk q False) cs)"
| "xpath_description_text q (Text s) = []"

section \<open>Placemark lookup (parse\_kml\_features, lines 80 to 111)\<close>

text \<open>
  The dictionary \<open>namespaces\<close> is either empty (\<open>None\<close>) or holds one URI under the key
  \<open>kml\<close>. The queries are constant path expressions, so no path evaluation fails and
  the handlers of lines 101 and 110 have no counterpart. The library refuses a query
  whose dictionary holds an empty URI (the root declares \<open>xmlns=""\<close>) with a
  \<open>TypeError\<close>, which the handler of line 101 does not catch: it leaves the lookup.
\<close>

definition choose_namespace :: "(string option \<times> string) list \<Rightarrow> string option" where
  "choose_namespace m =
     (case m of
        [] \<Rightarrow> None
      | (first_ns_key, first_uri) # _ \<Rightarrow>
          (case map_of m None of
             Some uri \<Rightarrow> Some uri
           | None \<Rightarrow>
               (case map_of m (Some ''kml'') of
                  Some uri \<Rightarrow> Some uri
                | None \<Rightarrow> Some first_uri)))"

definition find_placemarks :: "xml \<Rightarrow> py_error + (string option \<times> xml list)" where
  "find_placemarks root =
     (let namespaces = choose_namespace (nsmap root)
      in case namespaces of
           None \<Rightarrow> Inr (namespaces, xpath_placemarks None root)
         | Some uri \<Rightarrow>
             if uri = [] then Inl TypeError
             else
               (let placemark_elements = xpath_placemarks (Some uri) root
                in if placemark_elements = []
                   then Inr (namespaces, xpath_placemarks None root)
                   else Inr (namespaces, placemark_elements)))"

section \<open>Records and the processing of one placemark (lines 116 to 198)\<close>

text \<open>
  Floating-point numbers are a type parameter \<open>'f\<close>, and \<open>float(text)\<close> is the parameter
  \<open>pyfloat\<close> (\<open>None\<close> is \<open>ValueError\<close>): the extraction only stores the parsed numbers.
\<close>

record 'f geometry =
  geo_type :: string
  coordinates :: "'f list"

record 'f track_point =
  storm_id :: string
  timestamp :: string
  latitude :: 'f
  longitude :: 'f
  location :: "'f geometry"
  wind_kts :: "int option"
  pressure_mb :: "int option"

definition STORM_NAME_FOR_DB :: string where
  "STORM_NAME_FOR_DB = ''BESTTRACK_2020''"

text \<open>
  Lines 127 to 140: the pair is (\<open>lon\<close>, \<open>lat\<close>). Unpacking fewer than two pieces, or a
  piece that is no number, raises inside the \<open>try\<close>; \<open>lon\<close> is assigned before \<open>lat\<close> is
  parsed.
\<close>

definition parse_coordinates ::
  "(string \<Rightarrow> 'f option) \<Rightarrow> nat \<Rightarrow> string list \<Rightarrow> ('f option \<times> 'f option) \<times> log_line list" where
  "parse_coordinates pyfloat n coord_text =
     (case coord_text of
        [] \<Rightarrow> ((None, None), [])
      | first # _ \<Rightarrow>
          (case split_str '','' (strip first) of
             lon_str # lat_str # _ \<Rightarrow>
               (case pyfloat lon_str of
                  None \<Rightarrow> ((None, None), [WarnCoordinates n first])
                | Some lon \<Rightarrow>
                    (case pyfloat lat_str of
                       None \<Rightarrow> ((Some lon, None), [WarnCoordinates n first])
                     | Some lat \<Rightarrow> ((Some lon, Some lat), [])))
           | _ \<Rightarrow> ((None, None), [WarnCoordinates n first])))"

definition placemark_coord_text :: "string option \<Rightarrow> xml \<Rightarrow> string list" where
  "placemark_coord_text namespaces pm_elem =
     (let coord_text =
            (case namespaces of
               None \<Rightarrow> []
             | Some uri \<Rightarrow> xpath_coordinates_text (Some uri) pm_elem)
      in if coord_text = [] then xpath_coordinates_text None pm_elem else coord_text)"

definition placemark_desc_text :: "string option \<Rightarrow> xml \<Rightarrow> string option" where
  "placemark_desc_text namespaces pm_elem =
     (let desc_elements =
            (case namespaces of
               None \<Rightarrow> []
             | Some uri \<Rightarrow> xpath_description_text (Some uri) pm_elem);
          desc_elements =
            (if desc_elements = [] then xpath_description_text None pm_elem
             else desc_elements)
      in case desc_elements of [] \<Rightarrow> None | first # _ \<Rightarrow> Some (strip first))"

text \<open>
  The three values the admission test of line 185 reads. The timestamp is the parsed
  date-hour with offset zero attached (line 161).
\<close>

definition placemark_lon_lat ::
  "(string \<Rightarrow> 'f option) \<Rightarrow> string option \<Rightarrow> nat \<Rightarrow> xml \<Rightarrow> 'f option \<times> 'f option" where
  "placemark_lon_lat pyfloat namespaces n pm_elem =
     fst (parse_coordinates pyfloat n (placemark_coord_text namespaces pm_elem))"

definition placemark_timestamp :: "string option \<Rightarrow> nat \<Rightarrow> xml \<Rightarrow> datetime option" where
  "placemark_timestamp namespaces n pm_elem =
     (case placemark_desc_text namespaces pm_elem of
        None \<Rightarrow> None
      | Some desc_text \<Rightarrow> if desc_text = [] then None else fst (extract_timestamp n desc_text))"

definition placemark_wind :: "string option \<Rightarrow> xml \<Rightarrow> int option" where
  "placemark_wind namespaces pm_elem =
     (case placemark_desc_text namespaces pm_elem of
        None \<Rightarrow> None
      | Some desc_text \<Rightarrow> if desc_text = [] then None else extract_wind desc_text)"

definition placemark_pressure :: "string option \<Rightarrow> xml \<Rightarrow> int option" where
  "placemark_pressure namespaces pm_elem =
     (case placemark_desc_text namespaces pm_elem of
        None \<Rightarrow> None
      | Some desc_text \<Rightarrow> if desc_text = [] then None else extract_pressure desc_text)"

definition placemark_log ::
  "(string \<Rightarrow> 'f option) \<Rightarrow> string option \<Rightarrow> nat \<Rightarrow> xml \<Rightarrow> log_line list" where
  "placemark_log pyfloat namespaces n pm_elem =
     snd (parse_coordinates pyfloat n (placemark_coord_text namespaces pm_elem)) @
     (case placemark_desc_text namespaces pm_elem of
        None \<Rightarrow> []
      | Some desc_text \<Rightarrow> if desc_text = [] then [] else snd (extract_timestamp n desc_text))"

text \<open>
  Lines 184 to 198. The stored text of the timestamp is
  \<open>timestamp.astimezone(timezone.utc).strftime(...)\<close>; the value already has offset zero,
  so the conversion leaves its fields as they are.
\<close>

definition process_placemark ::
  "(string \<Rightarrow> 'f option) \<Rightarrow> string option \<Rightarrow> nat \<Rightarrow> xml \<Rightarrow>
     'f track_point option \<times> log_line list" where
  "process_placemark pyfloat namespaces n pm_elem =
     (case placemark_lon_lat pyfloat namespaces n pm_elem of
        (Some lon, Some lat) \<Rightarrow>
          (case placemark_timestamp namespaces n pm_elem of
             Some ts \<Rightarrow>
               (Some \<lparr>storm_id = STORM_NAME_FOR_DB,
                       timestamp = strftime_iso ts,
                       latitude = lat,
                       longitude = lon,
                       location = \<lparr>geo_type = ''Point'', coordinates = [lon, lat]\<rparr>,
                       wind_kts = placemark_wind namespaces pm_elem,
                       pressure_mb = placemark_pressure namespaces pm_elem\<rparr>,
                placemark_log pyfloat namespaces n pm_elem)
           | None \<Rightarrow>
               (None, placemark_log pyfloat namespaces n pm_elem @ [WarnSkipped n]))
      | _ \<Rightarrow> (None, placemark_log pyfloat namespaces n pm_elem))"

text \<open>The loop of line 119; \<open>placemark_count\<close> is incremented before each element.\<close>

fun process_placemarks ::
  "(string \<Rightarrow> 'f option) \<Rightarrow> string option \<Rightarrow> nat \<Rightarrow> xml list \<Rightarrow>
     'f track_point list \<times> log_line list" where
  "process_placemarks pyfloat namespaces placemark_count [] = ([], [])"
| "process_placemarks pyfloat namespaces placemark_count (pm_elem # rest) =
     (let (r, l) = process_placemark pyfloat namespaces (Suc placemark_count) pm_elem;
          (records, ls) = process_placemarks pyfloat namespaces (Suc placemark_count) rest
      in (case r of None \<Rightarrow> records | Some record \<Rightarrow> record # records, l @ ls))"

text \<open>
  Lines 80 to 215. An exception that leaves the lookup is reported by the handler of
  line 208, and the function returns the records gathered so far, which are none. The
  loop therefore runs with no namespace or with a non-empty URI.
\<close>

definition extract_records ::
  "(string \<Rightarrow> 'f option) \<Rightarrow> xml \<Rightarrow> 'f track_point list" where
  "extract_records pyfloat root =
     (case find_placemarks root of
        Inl e \<Rightarrow> []
      | Inr (namespaces, placemark_elements) \<Rightarrow>
          fst (process_placemarks pyfloat namespaces 0 placemark_elements))"

text \<open>
  \<open>parse_kml_features\<close>. Decoding and parsing the bytes is the markup library's work:
  \<open>parse_utf8\<close> stands for lines 60 to 63 and \<open>parse_latin1\<close> for lines 68 to 71, each
  \<open>None\<close> when the attempt raises. Bytes are a \<^typ>\<open>string\<close>.
\<close>

definition parse_kml_features ::
  "(string \<Rightarrow> 'f option) \<Rightarrow> (string \<Rightarrow> xml option) \<Rightarrow> (string \<Rightarrow> xml option) \<Rightarrow>
     string \<Rightarrow> 'f track_point list" where
  "parse_kml_features pyfloat parse_utf8 parse_latin1 kml_content_bytes =
     (if kml_content_bytes = [] then []
      else case parse_utf8 kml_content_bytes of
             Some root \<Rightarrow> extract_records pyfloat root
           | None \<Rightarrow>
               (case parse_latin1 kml_content_bytes of
                  Some root \<Rightarrow> extract_records pyfloat root
                | None \<Rightarrow> []))"

section \<open>The ingestion run (load\_track\_data.py, main part)\<close>

text \<open>
  An archive is the list of its entries (name and content) in directory order, or
  \<open>None\<close> when it cannot be opened. \<open>kmz.read(name)\<close> returns the last entry of that
  name. \<open>str.lower\<close> below code point 256 moves the letters A to Z and the accented
  capitals 192 to 222 (not 215) up by 32.
\<close>

definition lower_char :: "char \<Rightarrow> char" where
  "lower_char c =
     (let n = (of_char c :: nat)
      in if (65 \<le> n \<and> n \<le> 90) \<or> (192 \<le> n \<and> n \<le> 222 \<and> n \<noteq> 215)
         then char_of (n + 32) else c)"

definition find_kml_in_kmz :: "(string \<times> string) list option \<Rightarrow> string option" where
  "find_kml_in_kmz kmz =
     (case kmz of
        None \<Rightarrow> None
      | Some entries \<Rightarrow>
          (case filter (\<lambda>f. endswith (map lower_char f) ''.kml'') (map fst entries) of
             [] \<Rightarrow> None
           | kml_filename # _ \<Rightarrow> map_of (rev entries) kml_filename))"

text \<open>
  A stored document: every field may be absent, as the query service reads them with
  \<open>get\<close>. The collection is the list of its documents in insertion order.
\<close>

record 'f document =
  doc_storm_id :: "string option"
  doc_timestamp :: "string option"
  doc_latitude :: "'f option"
  doc_longitude :: "'f option"
  doc_location :: "'f geometry option"
  doc_wind_kts :: "int option"
  doc_pressure_mb :: "int option"

definition to_document :: "'f track_point \<Rightarrow> 'f document" where
  "to_document r =
     \<lparr>doc_storm_id = Some (storm_id r),
      doc_timestamp = Some (timestamp r),
      doc_latitude = Some (latitude r),
      doc_longitude = Some (longitude r),
      doc_location = Some (location r),
      doc_wind_kts = wind_kts r,
      doc_pressure_mb = pressure_mb r\<rparr>"

definition delete_many :: "string \<Rightarrow> 'f document list \<Rightarrow> 'f document list" where
  "delete_many sid docs = filter (\<lambda>d. doc_storm_id d \<noteq> Some sid) docs"

definition insert_many :: "'f track_point list \<Rightarrow> 'f document list \<Rightarrow> 'f document list" where
  "insert_many rs docs = docs @ map to_document rs"

text \<open>
  Where the store may raise during a run: on connecting, on the delete, on the insert
  (after writing the first \<open>k\<close> documents of the batch) or on creating an index. The
  handlers of lines 254 to 262 only report.
\<close>

datatype store_fault = ConnectFails | DeleteFails | InsertFails nat | IndexFails

definition store_run ::
  "store_fault option \<Rightarrow> 'f track_point list \<Rightarrow> 'f document list \<Rightarrow> 'f document list" where
  "store_run fault storm_data docs =
     (case fault of
        Some ConnectFails \<Rightarrow> docs
      | Some DeleteFails \<Rightarrow> docs
      | Some (InsertFails k) \<Rightarrow>
          insert_many (take k storm_data) (delete_many STORM_NAME_FOR_DB docs)
      | Some IndexFails \<Rightarrow> insert_many storm_data (delete_many STORM_NAME_FOR_DB docs)
      | None \<Rightarrow> insert_many storm_data (delete_many STORM_NAME_FOR_DB docs))"

text \<open>Lines 219 to 271: the state of the collection after the run.\<close>

definition load_main ::
  "(string \<Rightarrow> 'f option) \<Rightarrow> (string \<Rightarrow> xml option) \<Rightarrow> (string \<Rightarrow> xml option) \<Rightarrow>
     store_fault option \<Rightarrow> (string \<times> string) list option \<Rightarrow>
     'f document list \<Rightarrow> 'f document list" where
  "load_main pyfloat parse_utf8 parse_latin1 fault kmz docs =
     (case find_kml_in_kmz kmz of
        None \<Rightarrow> docs
      | Some kml_bytes \<Rightarrow>
          if kml_bytes = [] then docs
          else
            (let storm_data = parse_kml_features pyfloat parse_utf8 parse_latin1 kml_bytes
             in if storm_data = [] then docs else store_run fault storm_data docs))"

definition storm_count :: "string \<Rightarrow> 'f document list \<Rightarrow> nat" where
  "storm_count sid docs = length (filter (\<lambda>d. doc_storm_id d = Some sid) docs)"

section \<open>The query service (backend.py)\<close>

record request_args =
  timestamp_arg :: "string option"
  start_arg :: "string option"
  end_arg :: "string option"
  storm_id_arg :: "string option"

text \<open>
  The collection handle as the service holds it: its documents, whether a query on it
  answers or raises, and whether the handle object raises when tested for truth, as the
  collection objects of the store driver do from its version 4 on.
\<close>

record 'f collection =
  documents :: "'f document list"
  available :: bool
  truth_test_raises :: bool

record properties =
  prop_timestamp :: "string option"
  prop_wind_kts :: "int option"
  prop_pressure_mb :: "int option"
  prop_storm_id :: "string option"

record 'f feature =
  feat_geometry :: "'f geometry"
  feat_properties :: properties

text \<open>
  The body of a response: an error object, a feature collection, or the page the web
  framework writes for an exception that no handler of the service caught.
\<close>

datatype 'f body = ErrorBody string | FeatureCollection "'f feature list" | Unhandled py_error

text \<open>A parameter counts as given when it is present and not empty (\<open>if timestamp_param:\<close>).\<close>

definition given :: "string option \<Rightarrow> string option" where
  "given p = (case p of None \<Rightarrow> None | Some s \<Rightarrow> if s = [] then None else Some s)"

definition replace_Z :: "string \<Rightarrow> string" where
  "replace_Z s = concat (map (\<lambda>c. if c = CHR ''Z'' then ''+00:00'' else [c]) s)"

text \<open>
  The filters of the store: a field equal to a value, and a text field within bounds.
  The store compares text by code points, which is the order of \<^typ>\<open>string\<close>; a
  document without the field matches no bound.
\<close>

definition match_storm :: "string \<Rightarrow> 'f document \<Rightarrow> bool" where
  "match_storm sid d = (doc_storm_id d = Some sid)"

definition match_lte :: "string \<Rightarrow> 'f document \<Rightarrow> bool" where
  "match_lte hi d = (case doc_timestamp d of None \<Rightarrow> False | Some ts \<Rightarrow> ts \<le> hi)"

definition match_gte :: "string \<Rightarrow> 'f document \<Rightarrow> bool" where
  "match_gte lo d = (case doc_timestamp d of None \<Rightarrow> False | Some ts \<Rightarrow> lo \<le> ts)"

text \<open>
  \<open>collection.find(filter).sort("timestamp", direction)\<close> read into a list. An absent
  field sorts before every text; documents with equal keys keep insertion order
  ascending and the reverse of it descending.
\<close>

definition find_ascending ::
  "'f collection \<Rightarrow> ('f document \<Rightarrow> bool) \<Rightarrow> py_error + 'f document list" where
  "find_ascending c f =
     (if available c then Inr (sort_key doc_timestamp (filter f (documents c)))
      else Inl StoreError)"

definition find_descending ::
  "'f collection \<Rightarrow> ('f document \<Rightarrow> bool) \<Rightarrow> py_error + 'f document list" where
  "find_descending c f =
     (if available c then Inr (rev (sort_key doc_timestamp (filter f (documents c))))
      else Inl StoreError)"

text \<open>
  Lines 113 to 135. A document without a location gives no feature. The feature
  library builds the geometry by the class its type names and raises when the type
  names none of the classes that take coordinates; that exception is raised outside
  every \<open>try\<close> of the service.
\<close>

definition coercible :: "'f geometry \<Rightarrow> bool" where
  "coercible g =
     (geo_type g \<in> set [''Point'', ''LineString'', ''Polygon'', ''MultiPoint'',
                          ''MultiLineString'', ''MultiPolygon'', ''GeometryCollection'',
                          ''Feature'', ''GeoJSON''])"

definition to_feature :: "'f document \<Rightarrow> py_error + 'f feature option" where
  "to_feature point_data =
     (case doc_location point_data of
        None \<Rightarrow> Inr None
      | Some geometry \<Rightarrow>
          if coercible geometry then
            Inr (Some \<lparr>feat_geometry = geometry,
                       feat_properties =
                         \<lparr>prop_timestamp = doc_timestamp point_data,
                          prop_wind_kts = doc_wind_kts point_data,
                          prop_pressure_mb = doc_pressure_mb point_data,
                          prop_storm_id = doc_storm_id point_data\<rparr>\<rparr>)
          else Inl GeometryError)"

fun features :: "'f document list \<Rightarrow> py_error + 'f feature list" where
  "features [] = Inr []"
| "features (point_data # rest) =
     (case to_feature point_data of
        Inl e \<Rightarrow> Inl e
      | Inr f \<Rightarrow>
          (case features rest of
             Inl e \<Rightarrow> Inl e
           | Inr fs \<Rightarrow> Inr (case f of None \<Rightarrow> fs | Some x \<Rightarrow> x # fs)))"

definition respond :: "'f document list \<Rightarrow> 'f body \<times> nat" where
  "respond result =
     (case features result of
        Inl e \<Rightarrow> (Unhandled e, 500)
      | Inr fs \<Rightarrow> (FeatureCollection fs, 200))"

text \<open>The handlers \<open>except Exception\<close> of the three queries.\<close>

definition query_failed :: "py_error \<Rightarrow> 'f body \<times> nat" where
  "query_failed e = (ErrorBody ''Database query failed'', 500)"

text \<open>
  \<open>get_track_data\<close>. \<open>fromisoformat\<close> is the library's parser of instants (\<open>None\<close> is
  \<open>ValueError\<close>); the handle is \<open>None\<close> when the connection failed. Line 49 tests the
  handle for truth, where line 21 compares it with \<open>None\<close>: a handle object that raises
  on that test ends the request before any parameter is read, outside every \<open>try\<close>. The
  bound of a query is the text \<open>strftime\<close> gives for the parsed value.
\<close>

definition get_track_data ::
  "(string \<Rightarrow> datetime option) \<Rightarrow> 'f collection option \<Rightarrow> request_args \<Rightarrow> 'f body \<times> nat" where
  "get_track_data fromisoformat handle args =
     (case handle of
        None \<Rightarrow> (ErrorBody ''Database connection failed'', 500)
      | Some collection \<Rightarrow>
          if truth_test_raises collection then (Unhandled NotImplementedError, 500)
          else
          (let storm_id_param =
                 (case storm_id_arg args of None \<Rightarrow> ''BESTTRACK_2020'' | Some s \<Rightarrow> s)
           in case given (timestamp_arg args) of
                Some timestamp_param \<Rightarrow>
                  (case fromisoformat (replace_Z timestamp_param) of
                     None \<Rightarrow>
                       (ErrorBody ''Invalid timestamp format. Use ISO format like YYYY-MM-DDTHH:MM:SSZ'', 400)
                   | Some target_time \<Rightarrow>
                       (case find_descending collection
                               (\<lambda>d. match_storm storm_id_param d \<and>
                                    match_lte (strftime_iso target_time) d) of
                          Inl e \<Rightarrow> query_failed e
                        | Inr rows \<Rightarrow>
                            if take 1 rows = [] then
                              (case find_ascending collection (match_storm storm_id_param) of
                                 Inl e \<Rightarrow> query_failed e
                               | Inr rows' \<Rightarrow> respond (take 1 rows'))
                            else respond (take 1 rows)))
              | None \<Rightarrow>
                  (case (given (start_arg args), given (end_arg args)) of
                     (Some start_time_param, Some end_time_param) \<Rightarrow>
                       (case fromisoformat (replace_Z start_time_param) of
                          None \<Rightarrow>
                            (ErrorBody ''Invalid start/end time format. Use ISO format like YYYY-MM-DDTHH:MM:SSZ'', 400)
                        | Some start_time \<Rightarrow>
                            (case fromisoformat (replace_Z end_time_param) of
                               None \<Rightarrow>
                                 (ErrorBody ''Invalid start/end time format. Use ISO format like YYYY-MM-DDTHH:MM:SSZ'', 400)
                             | Some end_time \<Rightarrow>
                                 (case find_ascending collection
                                         (\<lambda>d. match_storm storm_id_param d \<and>
                                              match_gte (strftime_iso start_time) d \<and>
                                              match_lte (strftime_iso end_time) d) of
                                    Inl e \<Rightarrow> query_failed e
                                  | Inr rows \<Rightarrow> respond rows)))
                   | _ \<Rightarrow>
                       (case find_ascending collection (match_storm storm_id_param) of
                          Inl e \<Rightarrow> query_failed e
                        | Inr rows \<Rightarrow> respond rows))))"

section \<open>Notions the claims are stated with\<close>

text \<open>
  The point in time a \<open>datetime\<close> denotes, in microseconds, as the language compares
  aware values: the proleptic day number (\<open>toordinal\<close>) and the time of day, less the
  offset. A value without offset is read as UTC.
\<close>

definition toordinal :: "datetime \<Rightarrow> int" where
  "toordinal dt =
     (let y = int (year dt) - 1
      in y * 365 + y div 4 - y div 100 + y div 400 +
         int (sum_list (map (days_in_month (year dt)) [1..<month dt])) + int (day dt))"

definition instant :: "datetime \<Rightarrow> int" where
  "instant dt =
     (((toordinal dt * 24 + int (hour dt)) * 60 + int (minute dt)) * 60 + int (second dt)
        - (case tzinfo dt of None \<Rightarrow> 0 | Some off \<Rightarrow> off)) * 1000000
     + int (microsecond dt)"

text \<open>
  The pressure as the specification words it: the text between the MSLP marker and the
  next closing cell tag, less a trailing unit \<open>" mb"\<close> when there is one, trimmed; the
  field is its integer value when it consists of digits.
\<close>

definition mslp_cell :: "string \<Rightarrow> string option" where
  "mslp_cell desc_text =
     (case partition_at MSLP_MARKER desc_text of
        None \<Rightarrow> None
      | Some (before, rest) \<Rightarrow> map_option fst (partition_at ''</td>'' rest))"

definition spec_pressure :: "string \<Rightarrow> int option" where
  "spec_pressure desc_text =
     (case mslp_cell desc_text of
        None \<Rightarrow> None
      | Some cell \<Rightarrow>
          (let v = strip (if endswith cell '' mb'' then take (length cell - 3) cell else cell)
           in if isdigit v then py_int v else None))"

text \<open>
  The placemark lookup as the specification words it: the default namespace if one is
  declared, else the one under the prefix \<open>kml\<close>, else the first declared; the query
  under that namespace, and the unqualified query when that finds nothing or no
  namespace is declared.
\<close>

definition spec_namespace :: "(string option \<times> string) list \<Rightarrow> string option" where
  "spec_namespace m =
     (if m = [] then None
      else if None \<in> fst ` set m then map_of m None
      else if Some ''kml'' \<in> fst ` set m then map_of m (Some ''kml'')
      else Some (snd (hd m)))"

definition spec_placemarks :: "xml \<Rightarrow> xml list" where
  "spec_placemarks root =
     (case spec_namespace (nsmap root) of
        None \<Rightarrow> xpath_placemarks None root
      | Some uri \<Rightarrow>
          if xpath_placemarks (Some uri) root = [] then xpath_placemarks None root
          else xpath_placemarks (Some uri) root)"

text \<open>A document in which nothing declares or carries a namespace.\<close>

fun no_namespaces :: "xml \<Rightarrow> bool" where
  "no_namespaces (Element n t d cs) = (n = None \<and> d = [] \<and> list_all no_namespaces cs)"
| "no_namespaces (Text s) = True"

fun has_name :: "string \<Rightarrow> xml \<Rightarrow> bool" where
  "has_name name (Element n t d cs) = (t = name)"
| "has_name name (Text s) = False"

text \<open>Whether both coordinates and the timestamp of a placemark were parsed.\<close>

definition admitted :: "(string \<Rightarrow> 'f option) \<Rightarrow> string option \<Rightarrow> nat \<Rightarrow> xml \<Rightarrow> bool" where
  "admitted pyfloat namespaces n pm_elem =
     (fst (placemark_lon_lat pyfloat namespaces n pm_elem) \<noteq> None \<and>
      snd (placemark_lon_lat pyfloat namespaces n pm_elem) \<noteq> None \<and>
      placemark_timestamp namespaces n pm_elem \<noteq> None)"

text \<open>
  The instant texts a request consults: the timestamp when it is given; otherwise start
  and end when both are given; otherwise none. A text is well-formed for the service
  when the library's parser accepts it after the replacement of Z.
\<close>

definition consulted :: "request_args \<Rightarrow> string list" where
  "consulted args =
     (case given (timestamp_arg args) of
        Some t \<Rightarrow> [t]
      | None \<Rightarrow>
          (case (given (start_arg args), given (end_arg args)) of
             (Some s, Some e) \<Rightarrow> [s, e]
           | _ \<Rightarrow> []))"

definition parses :: "(string \<Rightarrow> datetime option) \<Rightarrow> string \<Rightarrow> bool" where
  "parses fromisoformat p = (fromisoformat (replace_Z p) \<noteq> None)"

definition is_error :: "'f body \<Rightarrow> bool" where
  "is_error b =
     (case b of ErrorBody m \<Rightarrow> True | FeatureCollection fs \<Rightarrow> False | Unhandled e \<Rightarrow> False)"

section \<open>Example inputs\<close>

text \<open>
  A placemark of the track format with whole-number coordinates, for which \<open>float\<close> and
  \<open>int\<close> read the same number; the examples use \<^const>\<open>py_int\<close> on them.
\<close>

definition example_placemark :: xml where
  "example_placemark =
     Element None ''Placemark'' []
       [Element None ''description'' []
          [Text ''<B>DTG </B></td><td>2020112512Z</td><B>MSLP </B></td><td>987 mb</td>''],
        Element None ''Point'' [] [Element None ''coordinates'' [] [Text '' 88,14,0 '']]]"

definition example_document :: xml where
  "example_document =
     Element None ''kml'' [] [Element None ''Document'' [] [example_placemark]]"

definition example_record :: "int track_point" where
  "example_record =
     \<lparr>storm_id = ''BESTTRACK_2020'', timestamp = ''2020-11-25T12:00:00Z'',
      latitude = 14, longitude = 88,
      location = \<lparr>geo_type = ''Point'', coordinates = [88, 14]\<rparr>,
      wind_kts = None, pressure_mb = Some 987\<rparr>"

text \<open>A placemark without a description, and an archive with one markup entry.\<close>

definition example_placemark_no_dtg :: xml where
  "example_placemark_no_dtg =
     Element None ''Placemark'' []
       [Element None ''Point'' [] [Element None ''coordinates'' [] [Text ''88,14,0'']]]"

definition example_archive :: "(string \<times> string) list" where
  "example_archive = [(''readme.txt'', ''best tracks''), (''doc.kml'', ''<kml/>'')]"

text \<open>A document that declares a prefixed and a default namespace on its root.\<close>

definition example_document_default_ns :: xml where
  "example_document_default_ns =
     Element (Some ''http://www.opengis.net/kml/2.2'') ''kml''
       [(Some ''gx'', ''http://www.google.com/kml/ext/2.2''),
        (None, ''http://www.opengis.net/kml/2.2'')]
       [Element (Some ''http://www.opengis.net/kml/2.2'') ''Placemark'' [] []]"

text \<open>
  A description as the track format writes it, the timestamp its date-hour denotes, and
  a description whose MSLP cell has no unit while a later cell has one.
\<close>

definition example_description :: string where
  "example_description =
     ''<B>DTG </B></td><td>2020112512Z</td><B>MSLP </B></td><td>987 mb</td>''"

definition example_timestamp :: datetime where
  "example_timestamp =
     \<lparr>year = 2020, month = 11, day = 25, hour = 12, minute = 0, second = 0,
      microsecond = 0, tzinfo = Some 0\<rparr>"

definition example_description_later_unit :: string where
  "example_description_later_unit =
     ''<tr><td><B>MSLP </B></td><td>987</td></tr><tr><td><B>Environment </B></td><td>1008 mb</td></tr>''"

text \<open>
  A collection with the documents of two observations of 2020-11-25, at 08:00 and at
  15:00 UTC, and the library's parser on the two texts the examples send: 06:00 and
  12:00 of that day at offset \<open>-05:00\<close>, which are 11:00 and 17:00 UTC.
\<close>

definition example_doc :: "string \<Rightarrow> int document" where
  "example_doc ts =
     \<lparr>doc_storm_id = Some ''BESTTRACK_2020'', doc_timestamp = Some ts,
      doc_latitude = Some 14, doc_longitude = Some 88,
      doc_location = Some \<lparr>geo_type = ''Point'', coordinates = [88, 14]\<rparr>,
      doc_wind_kts = None, doc_pressure_mb = None\<rparr>"

definition example_collection :: "int collection" where
  "example_collection =
     \<lparr>documents = [example_doc ''2020-11-25T08:00:00Z'', example_doc ''2020-11-25T15:00:00Z''],
      available = True, truth_test_raises = False\<rparr>"

definition utc_hour :: "nat \<Rightarrow> datetime" where
  "utc_hour h =
     \<lparr>year = 2020, month = 11, day = 25, hour = h, minute = 0, second = 0,
      microsecond = 0, tzinfo = Some 0\<rparr>"

definition example_fromisoformat :: "string \<Rightarrow> datetime option" where
  "example_fromisoformat s =
     (if s = ''2020-11-25T06:00:00-05:00''
      then Some ((utc_hour 6)\<lparr>tzinfo := Some (- 18000)\<rparr>)
      else if s = ''2020-11-25T12:00:00-05:00''
      then Some ((utc_hour 12)\<lparr>tzinfo := Some (- 18000)\<rparr>)
      else None)"

text \<open>
  A document whose root declares an empty default namespace, and a document with an
  observation dated in the year 999.
\<close>

definition example_document_empty_ns :: xml where
  "example_document_empty_ns =
     Element None ''kml'' [(None, [])] [Element None ''Document'' [] [example_placemark]]"

definition example_description_year_999 :: string where
  "example_description_year_999 = ''<B>DTG </B></td><td>0999010100Z</td>''"

definition example_document_year_999 :: xml where
  "example_document_year_999 =
     Element None ''kml'' []
       [Element None ''Placemark'' []
          [Element None ''description'' [] [Text example_description_year_999],
           Element None ''Point'' [] [Element None ''coordinates'' [] [Text ''88,14,0'']]]]"

section \<open>Properties of the extraction\<close>

lemma process_placemark_fields:
  assumes "fst (process_placemark pyfloat namespaces n pm_elem) = Some r"
  shows "storm_id r = STORM_NAME_FOR_DB"
    and "location r = \<lparr>geo_type = ''Point'', coordinates = [longitude r, latitude r]\<rparr>"
    and "placemark_lon_lat pyfloat namespaces n pm_elem = (Some (longitude r), Some (latitude r))"
    and "map_option strftime_iso (placemark_timestamp namespaces n pm_elem) = Some (timestamp r)"
    and "wind_kts r = placemark_wind namespaces pm_elem"
    and "pressure_mb r = placemark_pressure namespaces pm_elem"
  using assms
  by (auto simp: process_placemark_def split: prod.splits option.splits)

lemma process_placemark_admitted:
  "(fst (process_placemark pyfloat namespaces n pm_elem) \<noteq> None) =
     admitted pyfloat namespaces n pm_elem"
  by (auto simp: process_placemark_def admitted_def split: prod.splits option.splits)

lemma parse_coordinates_number:
  "fst (parse_coordinates pyfloat n coord_text) = fst (parse_coordinates pyfloat m coord_text)"
  by (simp add: parse_coordinates_def split: list.splits option.splits)

lemma extract_timestamp_number:
  "fst (extract_timestamp n desc_text) = fst (extract_timestamp m desc_text)"
  by (simp add: extract_timestamp_def split: option.splits)

lemma admitted_number: "admitted pyfloat namespaces n pm_elem = admitted pyfloat namespaces m pm_elem"
proof -
  have "placemark_lon_lat pyfloat namespaces n pm_elem = placemark_lon_lat pyfloat namespaces m pm_elem"
    unfolding placemark_lon_lat_def by (rule parse_coordinates_number)
  moreover have "placemark_timestamp namespaces n pm_elem = placemark_timestamp namespaces m pm_elem"
    unfolding placemark_timestamp_def
    using extract_timestamp_number [of n _ m] by (simp split: option.splits)
  ultimately show ?thesis by (simp add: admitted_def)
qed

lemma process_placemarks_Cons:
  "fst (process_placemarks pyfloat namespaces k (pm # pms)) =
     (case fst (process_placemark pyfloat namespaces (Suc k) pm) of
        None \<Rightarrow> fst (process_placemarks pyfloat namespaces (Suc k) pms)
      | Some r \<Rightarrow> r # fst (process_placemarks pyfloat namespaces (Suc k) pms))"
proof -
  obtain r l where a: "process_placemark pyfloat namespaces (Suc k) pm = (r, l)"
    by (cases "process_placemark pyfloat namespaces (Suc k) pm")
  obtain rs ls where b: "process_placemarks pyfloat namespaces (Suc k) pms = (rs, ls)"
    by (cases "process_placemarks pyfloat namespaces (Suc k) pms")
  from a b show ?thesis by (cases r) simp_all
qed

lemma process_placemarks_length:
  "length (fst (process_placemarks pyfloat namespaces k pms)) =
     length (filter (admitted pyfloat namespaces 0) pms)"
proof (induction pms arbitrary: k)
  case Nil
  then show ?case by simp
next
  case (Cons pm pms)
  have a: "(fst (process_placemark pyfloat namespaces (Suc k) pm) \<noteq> None) =
      admitted pyfloat namespaces 0 pm"
    using process_placemark_admitted [of pyfloat namespaces "Suc k" pm]
      admitted_number [of pyfloat namespaces "Suc k" pm 0] by simp
  show ?case
  proof (cases "fst (process_placemark pyfloat namespaces (Suc k) pm)")
    case None
    with a have "\<not> admitted pyfloat namespaces 0 pm" by simp
    with None Cons.IH [of "Suc k"] show ?thesis
      by (simp only: process_placemarks_Cons) simp
  next
    case (Some r)
    with a have "admitted pyfloat namespaces 0 pm" by simp
    with Some Cons.IH [of "Suc k"] show ?thesis
      by (simp only: process_placemarks_Cons) simp
  qed
qed

lemma process_placemarks_member:
  "r \<in> set (fst (process_placemarks pyfloat namespaces k pms)) \<Longrightarrow>
     \<exists>n pm. pm \<in> set pms \<and> fst (process_placemark pyfloat namespaces n pm) = Some r"
proof (induction pms arbitrary: k)
  case Nil
  then show ?case by simp
next
  case (Cons pm pms)
  show ?case
  proof (cases "fst (process_placemark pyfloat namespaces (Suc k) pm) = Some r")
    case True
    then show ?thesis by auto
  next
    case False
    with Cons.prems have "r \<in> set (fst (process_placemarks pyfloat namespaces (Suc k) pms))"
      by (simp only: process_placemarks_Cons) (auto split: option.splits)
    from Cons.IH [OF this] show ?thesis by auto
  qed
qed

lemma extract_records_member:
  "r \<in> set (extract_records pyfloat root) \<Longrightarrow>
     \<exists>namespaces n pm. fst (process_placemark pyfloat namespaces n pm) = Some r"
proof -
  assume a: "r \<in> set (extract_records pyfloat root)"
  then obtain namespaces pms where f: "find_placemarks root = Inr (namespaces, pms)"
    by (cases "find_placemarks root") (auto simp: extract_records_def)
  with a have "r \<in> set (fst (process_placemarks pyfloat namespaces 0 pms))"
    by (simp add: extract_records_def)
  from process_placemarks_member [OF this] show ?thesis by blast
qed

lemma parse_kml_features_member:
  "r \<in> set (parse_kml_features pyfloat parse_utf8 parse_latin1 bytes) \<Longrightarrow>
     \<exists>namespaces n pm. fst (process_placemark pyfloat namespaces n pm) = Some r"
  unfolding parse_kml_features_def
  by (auto split: if_splits option.splits dest: extract_records_member)

lemma parse_kml_features_storm_id:
  "r \<in> set (parse_kml_features pyfloat parse_utf8 parse_latin1 bytes) \<Longrightarrow>
     storm_id r = STORM_NAME_FOR_DB"
  using parse_kml_features_member process_placemark_fields(1) by blast

lemma example_records:
  "parse_kml_features py_int (\<lambda>b. Some example_document) (\<lambda>b. None) ''<kml/>'' =
     [example_record]"
  by code_simp

lemma example_process:
  "fst (process_placemark py_int None 1 example_placemark) = Some example_record"
  by code_simp

text \<open>
  C3. A placemark yields a record exactly when both coordinates and the timestamp were
  parsed from it. The record then holds exactly the parsed values, with wind and
  pressure whatever their own extraction gave (set or unset), and the extraction as a
  whole returns as many records as there are such placemarks.
\<close>

theorem record_admission:
  "(fst (process_placemark pyfloat namespaces n pm_elem) \<noteq> None) =
     admitted pyfloat namespaces n pm_elem \<and>
   (\<forall>r. fst (process_placemark pyfloat namespaces n pm_elem) = Some r \<longrightarrow>
      placemark_lon_lat pyfloat namespaces n pm_elem = (Some (longitude r), Some (latitude r)) \<and>
      map_option strftime_iso (placemark_timestamp namespaces n pm_elem) = Some (timestamp r) \<and>
      wind_kts r = placemark_wind namespaces pm_elem \<and>
      pressure_mb r = placemark_pressure namespaces pm_elem) \<and>
   length (fst (process_placemarks pyfloat namespaces k pms)) =
     length (filter (admitted pyfloat namespaces 0) pms)"
  using process_placemark_admitted [of pyfloat namespaces n pm_elem]
    process_placemark_fields(3-6) [of pyfloat namespaces n pm_elem]
    process_placemarks_length [of pyfloat namespaces k pms]
  by blast

theorem record_admission_witness:
  "admitted py_int None 1 example_placemark \<and>
   fst (process_placemark py_int None 1 example_placemark) = Some example_record \<and>
   placemark_lon_lat py_int None 1 example_placemark = (Some 88, Some 14) \<and>
   placemark_wind None example_placemark = None \<and>
   placemark_pressure None example_placemark = Some 987 \<and>
   \<not> admitted py_int None 1 (Element None ''Placemark'' [] []) \<and>
   fst (process_placemark py_int None 1 (Element None ''Placemark'' [] [])) = None"
proof -
  have e: "fst (process_placemark py_int None 1 example_placemark) = Some example_record"
    by (rule example_process)
  have n: "fst (process_placemark py_int None 1 (Element None ''Placemark'' [] [])) = None"
    by code_simp
  from record_admission [of py_int None 1 example_placemark 0 "[]"] e
  have "admitted py_int None 1 example_placemark"
    and "placemark_lon_lat py_int None 1 example_placemark =
      (Some (longitude example_record), Some (latitude example_record))"
    and "wind_kts example_record = placemark_wind None example_placemark"
    and "pressure_mb example_record = placemark_pressure None example_placemark"
    by auto
  moreover from record_admission [of py_int None 1 "Element None ''Placemark'' [] []" 0 "[]"] n
  have "\<not> admitted py_int None 1 (Element None ''Placemark'' [] [])" by auto
  ultimately show ?thesis using e n by (simp add: example_record_def)
qed

text \<open>
  C10. Every record the extraction returns has as its location the point built from
  its own longitude and latitude, in that order, and carries the configured storm
  identifier.
\<close>

theorem record_geometry_consistent:
  "\<forall>r \<in> set (parse_kml_features pyfloat parse_utf8 parse_latin1 kml_content_bytes).
     location r = \<lparr>geo_type = ''Point'', coordinates = [longitude r, latitude r]\<rparr> \<and>
     storm_id r = STORM_NAME_FOR_DB"
proof
  fix r
  assume "r \<in> set (parse_kml_features pyfloat parse_utf8 parse_latin1 kml_content_bytes)"
  from parse_kml_features_member [OF this]
  obtain namespaces n pm where "fst (process_placemark pyfloat namespaces n pm) = Some r"
    by blast
  from process_placemark_fields(1,2) [OF this]
  show "location r = \<lparr>geo_type = ''Point'', coordinates = [longitude r, latitude r]\<rparr> \<and>
     storm_id r = STORM_NAME_FOR_DB" by simp
qed

theorem record_geometry_consistent_witness:
  "parse_kml_features py_int (\<lambda>b. Some example_document) (\<lambda>b. None) ''<kml/>'' = [example_record] \<and>
   location example_record =
     \<lparr>geo_type = ''Point'', coordinates = [longitude example_record, latitude example_record]\<rparr> \<and>
   storm_id example_record = STORM_NAME_FOR_DB"
  using record_geometry_consistent [of py_int "\<lambda>b. Some example_document" "\<lambda>b. None" "''<kml/>''"]
  by (simp add: example_records)

section \<open>Properties of the ingestion run\<close>

lemma load_main_run:
  assumes "find_kml_in_kmz kmz = Some kml_bytes"
    and "parse_kml_features pyfloat parse_utf8 parse_latin1 kml_bytes = storm_data"
    and "storm_data \<noteq> []"
  shows "load_main pyfloat parse_utf8 parse_latin1 fault kmz docs = store_run fault storm_data docs"
proof -
  from assms(2,3) have "kml_bytes \<noteq> []"
    by (auto simp: parse_kml_features_def)
  with assms show ?thesis by (simp add: load_main_def)
qed

lemma store_run_complete:
  "fault = None \<or> fault = Some IndexFails \<Longrightarrow>
     store_run fault storm_data docs = insert_many storm_data (delete_many STORM_NAME_FOR_DB docs)"
  by (auto simp: store_run_def)

lemma storm_count_replaced:
  assumes "\<And>r. r \<in> set rs \<Longrightarrow> storm_id r = sid"
  shows "storm_count sid (insert_many rs (delete_many sid docs)) = length rs"
proof -
  have "filter (\<lambda>d. doc_storm_id d = Some sid) (delete_many sid docs) = []"
    by (simp add: delete_many_def filter_empty_conv)
  moreover from assms
  have "filter (\<lambda>d. doc_storm_id d = Some sid) (map to_document rs) = map to_document rs"
    by (simp add: filter_id_conv to_document_def)
  ultimately show ?thesis by (simp add: storm_count_def insert_many_def)
qed

lemma delete_many_replaced:
  assumes "\<And>r. r \<in> set rs \<Longrightarrow> storm_id r = sid"
  shows "delete_many sid (insert_many rs (delete_many sid docs)) = delete_many sid docs"
proof -
  from assms have "filter (\<lambda>d. doc_storm_id d \<noteq> Some sid) (map to_document rs) = []"
    by (simp add: filter_empty_conv to_document_def)
  then show ?thesis by (simp add: delete_many_def insert_many_def)
qed

text \<open>
  C9. When the archive gives no markup, or the extraction returns no record (markup
  that does not parse, or no placemark admitted), the run leaves the collection as it
  was, whatever the store would have done: neither the delete nor the insert is reached.
\<close>

theorem no_records_no_change:
  "find_kml_in_kmz kmz = None \<or>
   (\<exists>kml_bytes. find_kml_in_kmz kmz = Some kml_bytes \<and>
      parse_kml_features pyfloat parse_utf8 parse_latin1 kml_bytes = []) \<Longrightarrow>
     load_main pyfloat parse_utf8 parse_latin1 fault kmz docs = docs"
  by (auto simp: load_main_def)

theorem no_records_no_change_witness:
  "find_kml_in_kmz None = None \<and>
   load_main py_int (\<lambda>b. None) (\<lambda>b. None) None None [to_document example_record] =
     [to_document example_record] \<and>
   find_kml_in_kmz (Some example_archive) = Some ''<kml/>'' \<and>
   parse_kml_features py_int (\<lambda>b. None) (\<lambda>b. None) ''<kml/>'' = [] \<and>
   load_main py_int (\<lambda>b. None) (\<lambda>b. None) None (Some example_archive) [to_document example_record] =
     [to_document example_record] \<and>
   parse_kml_features py_int (\<lambda>b. Some example_placemark_no_dtg) (\<lambda>b. None) ''<kml/>'' = [] \<and>
   load_main py_int (\<lambda>b. Some example_placemark_no_dtg) (\<lambda>b. None) None (Some example_archive)
       [to_document example_record] =
     [to_document example_record]"
proof -
  have a: "find_kml_in_kmz None = None" by (simp add: find_kml_in_kmz_def)
  have b: "find_kml_in_kmz (Some example_archive) = Some ''<kml/>''" by code_simp
  have c: "parse_kml_features py_int (\<lambda>b. None) (\<lambda>b. None) ''<kml/>'' = []"
    by (simp add: parse_kml_features_def)
  have d: "parse_kml_features py_int (\<lambda>b. Some example_placemark_no_dtg) (\<lambda>b. None) ''<kml/>'' = []"
    by code_simp
  from a have "load_main py_int (\<lambda>b. None) (\<lambda>b. None) None None [to_document example_record] =
     [to_document example_record]"
    by (intro no_records_no_change) simp
  moreover from b c
  have "load_main py_int (\<lambda>b. None) (\<lambda>b. None) None (Some example_archive) [to_document example_record] =
     [to_document example_record]"
    by (intro no_records_no_change) simp
  moreover from b d
  have "load_main py_int (\<lambda>b. Some example_placemark_no_dtg) (\<lambda>b. None) None (Some example_archive)
       [to_document example_record] = [to_document example_record]"
    by (intro no_records_no_change) simp
  ultimately show ?thesis using a b c d by simp
qed

text \<open>
  C4, as stated, fails for a batch of no records: the run then stops before the delete,
  and the record stored before is still there.
\<close>

theorem ingestion_count_counterexample:
  "length (parse_kml_features py_int (\<lambda>b. Some example_placemark_no_dtg) (\<lambda>b. None) ''<kml/>'') = 0 \<and>
   storm_count STORM_NAME_FOR_DB
     (load_main py_int (\<lambda>b. Some example_placemark_no_dtg) (\<lambda>b. None) None (Some example_archive)
        [to_document example_record]) = 1"
  by code_simp

text \<open>
  C4, amended. When the extraction returns at least one record and the store accepts
  the delete and the insert, the collection afterwards holds exactly as many documents
  of the configured storm as the batch has records, whatever it held before; a second
  run over the same archive leaves the same number; documents of other storms are not
  touched.
\<close>

theorem ingestion_replaces_batch:
  assumes "find_kml_in_kmz kmz = Some kml_bytes"
    and "parse_kml_features pyfloat parse_utf8 parse_latin1 kml_bytes = storm_data"
    and "storm_data \<noteq> []"
    and "fault = None \<or> fault = Some IndexFails"
    and "fault' = None \<or> fault' = Some IndexFails"
  shows "storm_count STORM_NAME_FOR_DB
           (load_main pyfloat parse_utf8 parse_latin1 fault kmz docs) = length storm_data \<and>
         storm_count STORM_NAME_FOR_DB
           (load_main pyfloat parse_utf8 parse_latin1 fault' kmz
              (load_main pyfloat parse_utf8 parse_latin1 fault kmz docs)) = length storm_data \<and>
         delete_many STORM_NAME_FOR_DB (load_main pyfloat parse_utf8 parse_latin1 fault kmz docs) =
           delete_many STORM_NAME_FOR_DB docs"
proof -
  have ids: "\<And>r. r \<in> set storm_data \<Longrightarrow> storm_id r = STORM_NAME_FOR_DB"
    using assms(2) parse_kml_features_storm_id by blast
  have run: "load_main pyfloat parse_utf8 parse_latin1 f kmz ds =
      insert_many storm_data (delete_many STORM_NAME_FOR_DB ds)"
    if "f = None \<or> f = Some IndexFails" for f ds
    using load_main_run [OF assms(1-3)] store_run_complete [OF that] by simp
  show ?thesis
    using assms(4,5) storm_count_replaced [OF ids] delete_many_replaced [OF ids]
    by (simp add: run)
qed

theorem ingestion_replaces_batch_witness:
  "find_kml_in_kmz (Some example_archive) = Some ''<kml/>'' \<and>
   parse_kml_features py_int (\<lambda>b. Some example_document) (\<lambda>b. None) ''<kml/>'' = [example_record] \<and>
   storm_count STORM_NAME_FOR_DB
     (load_main py_int (\<lambda>b. Some example_document) (\<lambda>b. None) None (Some example_archive)
        [to_document example_record, to_document example_record]) = 1 \<and>
   storm_count STORM_NAME_FOR_DB
     (load_main py_int (\<lambda>b. Some example_document) (\<lambda>b. None) None (Some example_archive)
        (load_main py_int (\<lambda>b. Some example_document) (\<lambda>b. None) None (Some example_archive)
           [to_document example_record, to_document example_record])) = 1"
proof -
  have b: "find_kml_in_kmz (Some example_archive) = Some ''<kml/>''" by code_simp
  from ingestion_replaces_batch [OF b example_records, of None None
      "[to_document example_record, to_document example_record]"]
  show ?thesis using b example_records by simp
qed

section \<open>Properties of the placemark lookup\<close>

lemma choose_namespace_spec: "choose_namespace m = spec_namespace m"
proof (cases m)
  case Nil
  then show ?thesis by (simp add: choose_namespace_def spec_namespace_def)
next
  case (Cons p ps)
  obtain k u where p: "p = (k, u)" by (cases p)
  have n: "(None \<in> fst ` set m) = (map_of m None \<noteq> None)" for m :: "(string option \<times> string) list"
    by (simp add: map_of_eq_None_iff)
  have s: "(Some ''kml'' \<in> fst ` set m) = (map_of m (Some ''kml'') \<noteq> None)"
    for m :: "(string option \<times> string) list"
    by (simp add: map_of_eq_None_iff)
  show ?thesis
    unfolding choose_namespace_def spec_namespace_def n s
    using Cons p by (auto split: option.splits)
qed

lemma find_placemarks_spec:
  assumes "spec_namespace (nsmap root) \<noteq> Some []"
  shows "find_placemarks root = Inr (spec_namespace (nsmap root), spec_placemarks root)"
  using assms
  by (auto simp: find_placemarks_def spec_placemarks_def choose_namespace_spec Let_def
      split: option.splits)

lemma find_placemarks_refused:
  assumes "spec_namespace (nsmap root) = Some []"
  shows "find_placemarks root = Inl TypeError"
    and "extract_records pyfloat root = []"
  using assms
  by (simp_all add: find_placemarks_def extract_records_def choose_namespace_spec)

lemma no_namespaces_filter:
  "no_namespaces x \<Longrightarrow>
     filter (is_element None name) (descendants_or_self x) =
     filter (has_name name) (descendants_or_self x)"
proof (induction x)
  case (Element n t d cs)
  from Element.prems have n: "n = None" and cs: "\<And>c. c \<in> set cs \<Longrightarrow> no_namespaces c"
    by (simp_all add: list_all_iff)
  have m: "concat (map (\<lambda>c. filter (is_element None name) (descendants_or_self c)) cs) =
        concat (map (\<lambda>c. filter (has_name name) (descendants_or_self c)) cs)"
    using Element.IH cs by (intro arg_cong [where f = concat] map_cong) simp_all
  show ?case using n by (simp add: filter_concat comp_def m)
next
  case (Text s)
  then show ?case by simp
qed

lemma no_namespaces_nsmap: "no_namespaces root \<Longrightarrow> nsmap root = []"
  by (cases root) simp_all

text \<open>
  For a document in which nothing declares or carries a namespace, the lookup returns
  every element named \<open>Placemark\<close>, in document order.
\<close>

lemma no_namespaces_find:
  assumes "no_namespaces root"
  shows "find_placemarks root =
           Inr (None, filter (has_name ''Placemark'') (descendants_or_self root))"
  using no_namespaces_nsmap [OF assms] no_namespaces_filter [OF assms, of "''Placemark''"]
  by (simp add: find_placemarks_def choose_namespace_def xpath_placemarks_def)

lemma lookup_examples:
  "find_placemarks example_document = Inr (None, [example_placemark])"
  "find_placemarks example_document_default_ns =
     Inr (Some ''http://www.opengis.net/kml/2.2'',
          [Element (Some ''http://www.opengis.net/kml/2.2'') ''Placemark'' [] []])"
  by code_simp+

text \<open>
  C6. The claim fails for a document whose root declares an empty default namespace
  (\<open>xmlns=""\<close>), which leaves its elements in no namespace. The lookup chooses that
  declaration; the query under it finds nothing, and by the claim the unqualified query
  follows and finds the placemark. In the source the qualified query is refused with a
  \<open>TypeError\<close>, which the handler written for a failing query does not catch, and the
  extraction returns no record.
\<close>

theorem empty_default_namespace_aborts:
  "nsmap example_document_empty_ns = [(None, [])] \<and>
   choose_namespace (nsmap example_document_empty_ns) = Some [] \<and>
   xpath_placemarks (Some []) example_document_empty_ns = [] \<and>
   xpath_placemarks None example_document_empty_ns = [example_placemark] \<and>
   spec_placemarks example_document_empty_ns = [example_placemark] \<and>
   find_placemarks example_document_empty_ns = Inl TypeError \<and>
   extract_records py_int example_document_empty_ns = []"
  by code_simp

section \<open>Properties of the timestamp extraction\<close>

lemma digit_value_le: "is_ascii_digit c \<Longrightarrow> digit_value c \<le> 9"
  unfolding is_ascii_digit_def digit_value_def by arith

lemma fmt2_zero: "fmt2 0 = ''00''"
  by code_simp

lemma digit_char_value: "is_ascii_digit c \<Longrightarrow> digit_char (digit_value c) = c"
proof -
  assume "is_ascii_digit c"
  then have "48 + (of_char c - 48) = (of_char c :: nat)"
    unfolding is_ascii_digit_def by arith
  then show ?thesis by (simp add: digit_char_def digit_value_def)
qed

lemma two_digits_fmt2:
  assumes "two_digits s = Some v"
  shows "fmt2 v = s" and "v \<le> 99"
proof -
  from assms obtain a b where s: "s = [a, b]" and a: "is_ascii_digit a" and b: "is_ascii_digit b"
    and v: "v = 10 * digit_value a + digit_value b"
    by (auto simp: two_digits_def split: list.splits if_splits)
  from digit_value_le [OF a] digit_value_le [OF b]
  have "v div 10 mod 10 = digit_value a" "v mod 10 = digit_value b" "v \<le> 99"
    unfolding v by simp_all
  then show "fmt2 v = s" "v \<le> 99"
    using s digit_char_value [OF a] digit_char_value [OF b] by (simp_all add: fmt2_def)
qed

lemma length4: "length s = 4 \<Longrightarrow> \<exists>a b c e. s = [a, b, c, e]"
  by (auto simp: length_Suc_conv numeral_eq_Suc)

lemma year_field_fmt4:
  assumes "year_field s = Some y"
  shows "fmt4 y = s" and "y \<le> 9999"
proof -
  from assms have l: "length s = 4" and d: "list_all is_ascii_digit s" and y: "y = decimal s"
    by (auto simp: year_field_def split: if_splits)
  from length4 [OF l] obtain a b c e where s: "s = [a, b, c, e]" by blast
  from d s have da: "is_ascii_digit a" and db: "is_ascii_digit b"
    and dc: "is_ascii_digit c" and de: "is_ascii_digit e" by simp_all
  define n1 where "n1 = 10 * digit_value a + digit_value b"
  define n2 where "n2 = 10 * n1 + digit_value c"
  have yv: "y = 10 * n2 + digit_value e"
    unfolding y s n1_def n2_def by (simp add: decimal_def)
  have step: "(10 * n + d) mod 10 = d \<and> (10 * n + d) div 10 = n" if "d \<le> 9" for n d :: nat
    using that by simp
  have h: "y div 100 = y div 10 div 10" "y div 1000 = y div 10 div 10 div 10"
    using div_mult2_eq [of y 10 10] div_mult2_eq [of y 10 100] div_mult2_eq [of "y div 10" 10 10]
    by simp_all
  from step [OF digit_value_le [OF de], of n2]
  have y0: "y mod 10 = digit_value e" "y div 10 = n2" by (simp_all add: yv)
  from step [OF digit_value_le [OF dc], of n1]
  have y1: "n2 mod 10 = digit_value c" "n2 div 10 = n1" by (simp_all add: n2_def)
  from step [OF digit_value_le [OF db], of "digit_value a"]
  have y2: "n1 mod 10 = digit_value b" "n1 div 10 = digit_value a" by (simp_all add: n1_def)
  from digit_value_le [OF da] have y3: "digit_value a mod 10 = digit_value a" by simp
  from digit_value_le [OF da] digit_value_le [OF db] digit_value_le [OF dc] digit_value_le [OF de]
  have "y \<le> 9999" unfolding yv n2_def n1_def by simp
  with h y0 y1 y2 y3
  have "y div 1000 mod 10 = digit_value a" "y div 100 mod 10 = digit_value b"
    "y div 10 mod 10 = digit_value c" "y mod 10 = digit_value e" "y \<le> 9999"
    by simp_all
  then show "fmt4 y = s" "y \<le> 9999"
    using s digit_char_value [OF da] digit_char_value [OF db] digit_char_value [OF dc]
      digit_char_value [OF de] by (simp_all add: fmt4_def)
qed

lemma month_field_range: "month_field s = Some m \<Longrightarrow> 1 \<le> m \<and> m \<le> 12 \<and> two_digits s = Some m"
  by (auto simp: month_field_def split: option.splits if_splits)

lemma hour_field_range: "hour_field s = Some h \<Longrightarrow> h \<le> 23 \<and> two_digits s = Some h"
  by (auto simp: hour_field_def split: option.splits if_splits)

lemma day_field_range: "day_field s = Some d \<Longrightarrow> 1 \<le> d \<and> d \<le> 31"
  by (auto simp: day_field_def dest: digit_value_le split: option.splits if_splits list.splits)

lemma day_field_digits:
  "day_field s = Some d \<Longrightarrow> list_all is_ascii_digit s \<Longrightarrow> two_digits s = Some d"
  by (auto simp: day_field_def two_digits_def split: option.splits if_splits list.splits)

lemma strptime_fields:
  assumes "strptime_YmdH s = Some dt"
  shows "length s = 10"
    and "year_field (take 4 s) = Some (year dt)"
    and "month_field (take 2 (drop 4 s)) = Some (month dt)"
    and "day_field (take 2 (drop 6 s)) = Some (day dt)"
    and "hour_field (drop 8 s) = Some (hour dt)"
    and "minute dt = 0" and "second dt = 0" and "microsecond dt = 0" and "tzinfo dt = None"
    and "1 \<le> year dt" and "day dt \<le> days_in_month (year dt) (month dt)"
  using assms
  by (auto simp: strptime_YmdH_def split: if_splits option.splits)

lemma extract_timestamp_Some:
  assumes "fst (extract_timestamp n desc_text) = Some ts"
  obtains dtg_val dt where "contains desc_text DTG_MARKER"
    and "dtg_value desc_text = Some dtg_val"
    and "length dtg_val = 11" and "endswith dtg_val ''Z''"
    and "strptime_YmdH (butlast dtg_val) = Some dt" and "ts = dt\<lparr>tzinfo := Some 0\<rparr>"
  using assms
  by (auto simp: extract_timestamp_def split: if_splits option.splits)

lemma butlast_fields:
  assumes "length v = 11"
  shows "take 4 (butlast v) = take 4 v"
    and "take 2 (drop 4 (butlast v)) = take 2 (drop 4 v)"
    and "take 2 (drop 6 (butlast v)) = take 2 (drop 6 v)"
    and "drop 8 (butlast v) = take 2 (drop 8 v)"
  using assms by (simp_all add: butlast_conv_take drop_take)

lemma strftime_hour:
  assumes "minute ts = 0" and "second ts = 0" and "1000 \<le> year ts"
  shows "strftime_iso ts =
           fmt4 (year ts) @ ''-'' @ fmt2 (month ts) @ ''-'' @ fmt2 (day ts) @ ''T'' @
           fmt2 (hour ts) @ '':00:00Z''"
    and "length (strftime_iso ts) = 20"
  using assms
  by (simp_all add: strftime_iso_def fmt_year_def fmt2_zero) (simp add: fmt2_def fmt4_def)

lemma extract_timestamp_parsed:
  assumes "fst (extract_timestamp n desc_text) = Some ts"
  shows "\<exists>dtg_val. dtg_value desc_text = Some dtg_val \<and> length dtg_val = 11 \<and>
           endswith dtg_val ''Z'' \<and>
           year_field (take 4 dtg_val) = Some (year ts) \<and>
           month_field (take 2 (drop 4 dtg_val)) = Some (month ts) \<and>
           day_field (take 2 (drop 6 dtg_val)) = Some (day ts) \<and>
           hour_field (take 2 (drop 8 dtg_val)) = Some (hour ts) \<and>
           (list_all is_ascii_digit (take 10 dtg_val) \<and> 1000 \<le> year ts \<longrightarrow>
              strftime_iso ts =
                take 4 dtg_val @ ''-'' @ take 2 (drop 4 dtg_val) @ ''-'' @
                take 2 (drop 6 dtg_val) @ ''T'' @ take 2 (drop 8 dtg_val) @ '':00:00Z'')"
    and "minute ts = 0" and "second ts = 0" and "microsecond ts = 0" and "tzinfo ts = Some 0"
    and "1 \<le> year ts" and "year ts \<le> 9999" and "1 \<le> month ts" and "month ts \<le> 12"
    and "1 \<le> day ts" and "day ts \<le> days_in_month (year ts) (month ts)" and "hour ts \<le> 23"
proof -
  from assms obtain v dt where v: "dtg_value desc_text = Some v" "length v = 11" "endswith v ''Z''"
    and dt: "strptime_YmdH (butlast v) = Some dt" and ts: "ts = dt\<lparr>tzinfo := Some 0\<rparr>"
    by (rule extract_timestamp_Some)
  note f = strptime_fields [OF dt]
  note b = butlast_fields [OF v(2)]
  have y: "year_field (take 4 v) = Some (year ts)"
    and m: "month_field (take 2 (drop 4 v)) = Some (month ts)"
    and d: "day_field (take 2 (drop 6 v)) = Some (day ts)"
    and h: "hour_field (take 2 (drop 8 v)) = Some (hour ts)"
    using f(2-5) b ts by simp_all
  show z: "minute ts = 0" "second ts = 0" "microsecond ts = 0" "tzinfo ts = Some 0"
    using f(6-8) ts by simp_all
  show "1 \<le> year ts" "year ts \<le> 9999" "1 \<le> month ts" "month ts \<le> 12"
    "1 \<le> day ts" "day ts \<le> days_in_month (year ts) (month ts)" "hour ts \<le> 23"
    using f(10,11) ts year_field_fmt4(2) [OF y] month_field_range [OF m] day_field_range [OF d]
      hour_field_range [OF h] by simp_all
  have r: "strftime_iso ts =
      take 4 v @ ''-'' @ take 2 (drop 4 v) @ ''-'' @ take 2 (drop 6 v) @ ''T'' @
      take 2 (drop 8 v) @ '':00:00Z''"
    if digits: "list_all is_ascii_digit (take 10 v)" and big: "1000 \<le> year ts"
  proof -
    have "take 2 (drop 6 v) = take 2 (drop 6 (take 10 v))"
      by (simp add: drop_take)
    with digits have "list_all is_ascii_digit (take 2 (drop 6 v))"
      by (metis list_all_iff in_set_takeD in_set_dropD)
    from day_field_digits [OF d this] have d2: "two_digits (take 2 (drop 6 v)) = Some (day ts)" .
    from month_field_range [OF m] have m2: "two_digits (take 2 (drop 4 v)) = Some (month ts)" by simp
    from hour_field_range [OF h] have h2: "two_digits (take 2 (drop 8 v)) = Some (hour ts)" by simp
    show ?thesis
      using strftime_hour(1) [OF z(1,2) big] year_field_fmt4(1) [OF y] two_digits_fmt2(1) [OF m2]
        two_digits_fmt2(1) [OF d2] two_digits_fmt2(1) [OF h2] by simp
  qed
  show "\<exists>dtg_val. dtg_value desc_text = Some dtg_val \<and> length dtg_val = 11 \<and>
           endswith dtg_val ''Z'' \<and>
           year_field (take 4 dtg_val) = Some (year ts) \<and>
           month_field (take 2 (drop 4 dtg_val)) = Some (month ts) \<and>
           day_field (take 2 (drop 6 dtg_val)) = Some (day ts) \<and>
           hour_field (take 2 (drop 8 dtg_val)) = Some (hour ts) \<and>
           (list_all is_ascii_digit (take 10 dtg_val) \<and> 1000 \<le> year ts \<longrightarrow>
              strftime_iso ts =
                take 4 dtg_val @ ''-'' @ take 2 (drop 4 dtg_val) @ ''-'' @
                take 2 (drop 6 dtg_val) @ ''T'' @ take 2 (drop 8 dtg_val) @ '':00:00Z'')"
    using v y m d h r by blast
qed

lemma extract_timestamp_rejected:
  assumes "contains desc_text DTG_MARKER" and "dtg_value desc_text = Some dtg_val"
    and "length dtg_val \<noteq> 11 \<or> \<not> endswith dtg_val ''Z''"
  shows "extract_timestamp n desc_text = (None, [WarnDTGFormat n dtg_val])"
  using assms by (auto simp: extract_timestamp_def)

lemma extract_timestamp_logged:
  assumes "contains desc_text DTG_MARKER" and "fst (extract_timestamp n desc_text) = None"
  shows "snd (extract_timestamp n desc_text) \<noteq> []"
  using assms by (auto simp: extract_timestamp_def split: option.splits if_splits)

lemma process_placemark_timestamp:
  assumes "fst (process_placemark pyfloat namespaces n pm_elem) = Some r"
  shows "\<exists>desc_text ts. placemark_desc_text namespaces pm_elem = Some desc_text \<and>
           fst (extract_timestamp n desc_text) = Some ts \<and> timestamp r = strftime_iso ts"
  using process_placemark_fields(4) [OF assms]
  by (auto simp: placemark_timestamp_def split: option.splits if_splits)

text \<open>
  What holds of every description. A timestamp is set only from a DTG value of exactly
  eleven characters ending in Z, whose first ten give year, month, day and hour of an
  existing date; the value then has offset zero and minute, second and microsecond
  zero. A value of any other shape leaves the timestamp unset and is reported by a
  warning that names it; whenever the marker is present and the timestamp stays unset,
  a warning is printed. The timestamp of a record is the text of the value, and from
  the year 1000 on that text is the twenty-character \<open>YYYY-MM-DDTHH:00:00Z\<close>, which for
  a value of ten digits is those digits regrouped.
\<close>

lemma dtg_accepted_shape:
  "(\<forall>ts. fst (extract_timestamp n desc_text) = Some ts \<longrightarrow>
      (\<exists>dtg_val. dtg_value desc_text = Some dtg_val \<and> length dtg_val = 11 \<and>
           endswith dtg_val ''Z'' \<and>
           year_field (take 4 dtg_val) = Some (year ts) \<and>
           month_field (take 2 (drop 4 dtg_val)) = Some (month ts) \<and>
           day_field (take 2 (drop 6 dtg_val)) = Some (day ts) \<and>
           hour_field (take 2 (drop 8 dtg_val)) = Some (hour ts) \<and>
           (list_all is_ascii_digit (take 10 dtg_val) \<and> 1000 \<le> year ts \<longrightarrow>
              strftime_iso ts =
                take 4 dtg_val @ ''-'' @ take 2 (drop 4 dtg_val) @ ''-'' @
                take 2 (drop 6 dtg_val) @ ''T'' @ take 2 (drop 8 dtg_val) @ '':00:00Z'')) \<and>
      minute ts = 0 \<and> second ts = 0 \<and> microsecond ts = 0 \<and> tzinfo ts = Some 0 \<and>
      1 \<le> year ts \<and> year ts \<le> 9999 \<and> 1 \<le> month ts \<and> month ts \<le> 12 \<and>
      1 \<le> day ts \<and> day ts \<le> days_in_month (year ts) (month ts) \<and> hour ts \<le> 23 \<and>
      (1000 \<le> year ts \<longrightarrow>
         strftime_iso ts =
           fmt4 (year ts) @ ''-'' @ fmt2 (month ts) @ ''-'' @ fmt2 (day ts) @ ''T'' @
           fmt2 (hour ts) @ '':00:00Z'' \<and>
         length (strftime_iso ts) = 20)) \<and>
   (\<forall>dtg_val. contains desc_text DTG_MARKER \<and> dtg_value desc_text = Some dtg_val \<and>
      (length dtg_val \<noteq> 11 \<or> \<not> endswith dtg_val ''Z'') \<longrightarrow>
      extract_timestamp n desc_text = (None, [WarnDTGFormat n dtg_val])) \<and>
   (contains desc_text DTG_MARKER \<and> fst (extract_timestamp n desc_text) = None \<longrightarrow>
      snd (extract_timestamp n desc_text) \<noteq> []) \<and>
   (\<forall>r. fst (process_placemark pyfloat namespaces n pm_elem) = Some r \<longrightarrow>
      (\<exists>d ts. placemark_desc_text namespaces pm_elem = Some d \<and>
          fst (extract_timestamp n d) = Some ts \<and> timestamp r = strftime_iso ts))"
proof (intro conjI allI impI)
  fix ts
  assume a: "fst (extract_timestamp n desc_text) = Some ts"
  note p = extract_timestamp_parsed [OF a]
  show "\<exists>dtg_val. dtg_value desc_text = Some dtg_val \<and> length dtg_val = 11 \<and>
           endswith dtg_val ''Z'' \<and>
           year_field (take 4 dtg_val) = Some (year ts) \<and>
           month_field (take 2 (drop 4 dtg_val)) = Some (month ts) \<and>
           day_field (take 2 (drop 6 dtg_val)) = Some (day ts) \<and>
           hour_field (take 2 (drop 8 dtg_val)) = Some (hour ts) \<and>
           (list_all is_ascii_digit (take 10 dtg_val) \<and> 1000 \<le> year ts \<longrightarrow>
              strftime_iso ts =
                take 4 dtg_val @ ''-'' @ take 2 (drop 4 dtg_val) @ ''-'' @
                take 2 (drop 6 dtg_val) @ ''T'' @ take 2 (drop 8 dtg_val) @ '':00:00Z'')"
    by (rule p(1))
  show "minute ts = 0" "second ts = 0" "microsecond ts = 0" "tzinfo ts = Some 0"
    "1 \<le> year ts" "year ts \<le> 9999" "1 \<le> month ts" "month ts \<le> 12"
    "1 \<le> day ts" "day ts \<le> days_in_month (year ts) (month ts)" "hour ts \<le> 23"
    by (rule p)+
  show "strftime_iso ts =
        fmt4 (year ts) @ ''-'' @ fmt2 (month ts) @ ''-'' @ fmt2 (day ts) @ ''T'' @
        fmt2 (hour ts) @ '':00:00Z''" if "1000 \<le> year ts"
    by (rule strftime_hour(1) [OF p(2,3) that])
  show "length (strftime_iso ts) = 20" if "1000 \<le> year ts"
    by (rule strftime_hour(2) [OF p(2,3) that])
next
  fix dtg_val
  assume "contains desc_text DTG_MARKER \<and> dtg_value desc_text = Some dtg_val \<and>
      (length dtg_val \<noteq> 11 \<or> \<not> endswith dtg_val ''Z'')"
  then show "extract_timestamp n desc_text = (None, [WarnDTGFormat n dtg_val])"
    using extract_timestamp_rejected by blast
next
  assume "contains desc_text DTG_MARKER \<and> fst (extract_timestamp n desc_text) = None"
  then show "snd (extract_timestamp n desc_text) \<noteq> []"
    using extract_timestamp_logged by blast
next
  fix r
  assume "fst (process_placemark pyfloat namespaces n pm_elem) = Some r"
  then show "\<exists>d ts. placemark_desc_text namespaces pm_elem = Some d \<and>
          fst (extract_timestamp n d) = Some ts \<and> timestamp r = strftime_iso ts"
    by (rule process_placemark_timestamp)
qed

lemma dtg_examples:
  "fst (extract_timestamp 1 example_description) = Some example_timestamp"
  "strftime_iso example_timestamp = ''2020-11-25T12:00:00Z''"
  "extract_timestamp 1 ''<B>DTG </B></td><td>25 Nov 2020 12Z</td>'' =
     (None, [WarnDTGFormat 1 ''25 Nov 2020 12Z''])"
  "extract_timestamp 1 ''<B>DTG </B></td><td>2020113112Z</td>'' = (None, [WarnDTGParse 1])"
  by code_simp+

text \<open>
  C5. The claim fails for a DTG value whose year lies below 1000. The value
  \<open>0999010100Z\<close> has eleven characters, ends in Z and is accepted as the first hour of
  the year 999; the text stored for it is \<open>999-01-01T00:00:00Z\<close>, nineteen characters
  with a year of three digits, not the fixed format of twenty.
\<close>

theorem dtg_year_unpadded:
  "dtg_value example_description_year_999 = Some ''0999010100Z'' \<and>
   fst (extract_timestamp 1 example_description_year_999) =
     Some \<lparr>year = 999, month = 1, day = 1, hour = 0, minute = 0, second = 0,
           microsecond = 0, tzinfo = Some 0\<rparr> \<and>
   map timestamp (extract_records py_int example_document_year_999) =
     [''999-01-01T00:00:00Z''] \<and>
   map (\<lambda>r. length (timestamp r)) (extract_records py_int example_document_year_999) = [19]"
  by code_simp

section \<open>Properties of the pressure extraction\<close>

text \<open>The two values the specification names, and a value without unit.\<close>

lemma pressure_examples:
  "extract_pressure ''<td><B>MSLP </B></td><td>987 mb</td>'' = Some 987"
  "extract_pressure ''<td><B>MSLP </B></td><td>N/A</td>'' = None"
  "extract_pressure ''<td><B>MSLP </B></td><td>987</td>'' = Some 987"
  by code_simp+

text \<open>
  C8. The claim fails on a description whose MSLP cell holds digits without a unit
  while a later cell ends in the unit: the cell's value is 987, and the extraction
  leaves the pressure unset, because it looks for the unit in all the text after the
  marker and then cuts at the later cell.
\<close>

theorem pressure_unit_in_later_cell:
  "mslp_cell example_description_later_unit = Some ''987'' \<and>
   spec_pressure example_description_later_unit = Some 987 \<and>
   extract_pressure example_description_later_unit = None"
  by code_simp

section \<open>Properties of the query service\<close>

lemma malformed_400:
  assumes "\<not> truth_test_raises collection"
    and "\<not> list_all (parses fromisoformat) (consulted args)"
  shows "snd (get_track_data fromisoformat (Some collection) args) = 400"
    and "is_error (fst (get_track_data fromisoformat (Some collection) args))"
  using assms
  by (auto simp: get_track_data_def consulted_def parses_def is_error_def Let_def
      split: option.splits prod.splits)

lemma store_failure_500:
  assumes "\<not> truth_test_raises collection"
    and "list_all (parses fromisoformat) (consulted args)" and "\<not> available collection"
  shows "get_track_data fromisoformat (Some collection) args =
           (ErrorBody ''Database query failed'', 500)"
  using assms
  by (auto simp: get_track_data_def consulted_def parses_def find_ascending_def
      find_descending_def query_failed_def Let_def split: option.splits prod.splits)

lemma answered_rows:
  assumes "\<not> truth_test_raises collection"
    and "list_all (parses fromisoformat) (consulted args)" and "available collection"
  shows "\<exists>rows. get_track_data fromisoformat (Some collection) args = respond rows"
  using assms
  by (auto simp: get_track_data_def consulted_def parses_def find_ascending_def
      find_descending_def Let_def split: option.splits prod.splits)

text \<open>
  A malformed text in a parameter the request does not consult is ignored: a malformed
  start without an end returns the whole track.
\<close>

lemma unconsulted_start_ignored:
  "\<not> parses (\<lambda>s. None) ''not-a-date'' \<and>
   get_track_data (\<lambda>s. None) (Some example_collection)
     \<lparr>timestamp_arg = None, start_arg = Some ''not-a-date'', end_arg = None,
      storm_id_arg = None\<rparr> =
     respond (documents example_collection)"
  by code_simp

text \<open>
  C7. The claim fails for a request with a malformed timestamp when the store is
  connected and the handle object raises on the truth test of line 49: the request ends
  there in an exception that no handler catches, and the answer is the framework's 500
  without an error body, not a 400. With a handle on which the test passes the same
  request is answered 400 with the error body.
\<close>

theorem malformed_instant_unhandled:
  "\<not> parses example_fromisoformat ''not-a-date'' \<and>
   get_track_data example_fromisoformat
     (Some (example_collection\<lparr>truth_test_raises := True\<rparr>))
     \<lparr>timestamp_arg = Some ''not-a-date'', start_arg = None, end_arg = None,
      storm_id_arg = None\<rparr> = (Unhandled NotImplementedError, 500) \<and>
   get_track_data example_fromisoformat (Some example_collection)
     \<lparr>timestamp_arg = Some ''not-a-date'', start_arg = None, end_arg = None,
      storm_id_arg = None\<rparr> =
     (ErrorBody ''Invalid timestamp format. Use ISO format like YYYY-MM-DDTHH:MM:SSZ'', 400)"
  by code_simp

text \<open>
  C1. The claim fails for an instant written with an offset. The request asks for
  12:00 at \<open>-05:00\<close>, which is 17:00 UTC; the record of 15:00 UTC is the latest at
  or before that instant, and the service returns the record of 08:00 UTC: the bound it
  sends to the store is the text \<open>2020-11-25T12:00:00Z\<close>, the fields of the parsed
  value with the offset dropped. With a handle that raises on the truth test the request
  ends in the framework's 500 and returns no record at all.
\<close>

theorem nearest_query_drops_offset:
  "replace_Z ''2020-11-25T12:00:00-05:00'' = ''2020-11-25T12:00:00-05:00'' \<and>
   example_fromisoformat ''2020-11-25T12:00:00-05:00'' =
     Some ((utc_hour 12)\<lparr>tzinfo := Some (- 18000)\<rparr>) \<and>
   get_track_data example_fromisoformat (Some example_collection)
     \<lparr>timestamp_arg = Some ''2020-11-25T12:00:00-05:00'', start_arg = None, end_arg = None,
      storm_id_arg = None\<rparr> =
     respond [example_doc ''2020-11-25T08:00:00Z''] \<and>
   strftime_iso (utc_hour 8) = ''2020-11-25T08:00:00Z'' \<and>
   strftime_iso (utc_hour 15) = ''2020-11-25T15:00:00Z'' \<and>
   instant (utc_hour 8) < instant (utc_hour 15) \<and>
   instant (utc_hour 15) \<le> instant ((utc_hour 12)\<lparr>tzinfo := Some (- 18000)\<rparr>) \<and>
   respond [example_doc ''2020-11-25T08:00:00Z''] =
     (FeatureCollection
        [\<lparr>feat_geometry = \<lparr>geo_type = ''Point'', coordinates = [88, 14]\<rparr>,
          feat_properties =
            \<lparr>prop_timestamp = Some ''2020-11-25T08:00:00Z'', prop_wind_kts = None,
             prop_pressure_mb = None, prop_storm_id = Some ''BESTTRACK_2020''\<rparr>\<rparr>], 200) \<and>
   get_track_data example_fromisoformat
     (Some (example_collection\<lparr>truth_test_raises := True\<rparr>))
     \<lparr>timestamp_arg = Some ''2020-11-25T12:00:00-05:00'', start_arg = None, end_arg = None,
      storm_id_arg = None\<rparr> = (Unhandled NotImplementedError, 500)"
  by code_simp

text \<open>
  C2. The claim fails for instants written with an offset. The request asks for the
  range from 06:00 to 12:00 at \<open>-05:00\<close>, which is 11:00 to 17:00 UTC; the record of
  15:00 UTC lies in it and the record of 08:00 UTC does not, and the service returns the
  record of 08:00 UTC alone. With a handle that raises on the truth test the request
  ends in the framework's 500 and returns no record at all.
\<close>

theorem range_query_drops_offset:
  "example_fromisoformat (replace_Z ''2020-11-25T06:00:00-05:00'') =
     Some ((utc_hour 6)\<lparr>tzinfo := Some (- 18000)\<rparr>) \<and>
   example_fromisoformat (replace_Z ''2020-11-25T12:00:00-05:00'') =
     Some ((utc_hour 12)\<lparr>tzinfo := Some (- 18000)\<rparr>) \<and>
   get_track_data example_fromisoformat (Some example_collection)
     \<lparr>timestamp_arg = None, start_arg = Some ''2020-11-25T06:00:00-05:00'',
      end_arg = Some ''2020-11-25T12:00:00-05:00'', storm_id_arg = None\<rparr> =
     respond [example_doc ''2020-11-25T08:00:00Z''] \<and>
   strftime_iso (utc_hour 8) = ''2020-11-25T08:00:00Z'' \<and>
   strftime_iso (utc_hour 15) = ''2020-11-25T15:00:00Z'' \<and>
   instant (utc_hour 8) < instant ((utc_hour 6)\<lparr>tzinfo := Some (- 18000)\<rparr>) \<and>
   instant ((utc_hour 6)\<lparr>tzinfo := Some (- 18000)\<rparr>) \<le> instant (utc_hour 15) \<and>
   instant (utc_hour 15) \<le> instant ((utc_hour 12)\<lparr>tzinfo := Some (- 18000)\<rparr>) \<and>
   respond [example_doc ''2020-11-25T08:00:00Z''] =
     (FeatureCollection
        [\<lparr>feat_geometry = \<lparr>geo_type = ''Point'', coordinates = [88, 14]\<rparr>,
          feat_properties =
            \<lparr>prop_timestamp = Some ''2020-11-25T08:00:00Z'', prop_wind_kts = None,
             prop_pressure_mb = None, prop_storm_id = Some ''BESTTRACK_2020''\<rparr>\<rparr>], 200) \<and>
   get_track_data example_fromisoformat
     (Some (example_collection\<lparr>truth_test_raises := True\<rparr>))
     \<lparr>timestamp_arg = None, start_arg = Some ''2020-11-25T06:00:00-05:00'',
      end_arg = Some ''2020-11-25T12:00:00-05:00'', storm_id_arg = None\<rparr> =
     (Unhandled NotImplementedError, 500)"
  by code_simp

lemma last_sort_key:
  fixes f :: "'a \<Rightarrow> 'k :: linorder"
  assumes "xs \<noteq> []"
  shows "last (sort_key f xs) \<in> set xs" and "\<forall>x \<in> set xs. f x \<le> f (last (sort_key f xs))"
proof -
  let ?ys = "sort_key f xs"
  from assms have ne: "?ys \<noteq> []" by (metis length_sort length_0_conv)
  then show "last ?ys \<in> set xs" using last_in_set [OF ne] by simp
  have srt: "sorted (map f ?ys)" by (rule sorted_sort_key)
  show "\<forall>x \<in> set xs. f x \<le> f (last ?ys)"
  proof
    fix x assume "x \<in> set xs"
    then have "x \<in> set ?ys" by simp
    then obtain i where i: "i < length ?ys" "?ys ! i = x" by (metis in_set_conv_nth)
    from ne have l: "last ?ys = ?ys ! (length ?ys - 1)" by (rule last_conv_nth)
    from i have "i \<le> length ?ys - 1" by simp
    with srt i(1) have "map f ?ys ! i \<le> map f ?ys ! (length ?ys - 1)"
      by (intro sorted_nth_mono) simp_all
    with i l show "f x \<le> f (last ?ys)" by simp
  qed
qed

lemma hd_sort_key:
  fixes f :: "'a \<Rightarrow> 'k :: linorder"
  assumes "xs \<noteq> []"
  shows "hd (sort_key f xs) \<in> set xs" and "\<forall>x \<in> set xs. f (hd (sort_key f xs)) \<le> f x"
proof -
  let ?ys = "sort_key f xs"
  from assms have ne: "?ys \<noteq> []" by (metis length_sort length_0_conv)
  then show "hd ?ys \<in> set xs" using hd_in_set [OF ne] by simp
  have srt: "sorted (map f ?ys)" by (rule sorted_sort_key)
  from ne obtain y ys where ys: "?ys = y # ys" by (cases ?ys) auto
  show "\<forall>x \<in> set xs. f (hd ?ys) \<le> f x"
  proof
    fix x assume "x \<in> set xs"
    then have "x \<in> set ?ys" by simp
    with srt ys show "f (hd ?ys) \<le> f x" by auto
  qed
qed

lemma take1_rev: "ys \<noteq> [] \<Longrightarrow> take (Suc 0) (rev ys) = [last ys]"
  by (cases ys rule: rev_cases) simp_all

lemma take1_hd: "ys \<noteq> [] \<Longrightarrow> take (Suc 0) ys = [hd ys]"
  by (cases ys) simp_all

text \<open>
  The query for one instant, on the texts the store compares: with the handle available
  and passing the truth test, and the parameter parsed, the answer holds at most one document; it is a document of
  the storm whose timestamp text is greatest among those not above the bound, or, when
  there is none, one whose text is least among all of the storm.
\<close>

lemma nearest_query_by_text:
  fixes c :: "'f collection"
  assumes av: "available c" "\<not> truth_test_raises c"
    and g: "given (timestamp_arg args) = Some t"
    and p: "fromisoformat (replace_Z t) = Some target"
    and sid: "sid = (case storm_id_arg args of None \<Rightarrow> ''BESTTRACK_2020'' | Some s \<Rightarrow> s)"
    and M: "M = filter (\<lambda>d. match_storm sid d \<and> match_lte (strftime_iso target) d) (documents c)"
    and S: "S = filter (match_storm sid) (documents c)"
  shows "\<exists>result. get_track_data fromisoformat (Some c) args = respond result \<and>
           length result \<le> 1 \<and>
           (M \<noteq> [] \<longrightarrow> (\<exists>d. result = [d] \<and> d \<in> set M \<and>
               (\<forall>x \<in> set M. doc_timestamp x \<le> doc_timestamp d))) \<and>
           (M = [] \<and> S \<noteq> [] \<longrightarrow> (\<exists>d. result = [d] \<and> d \<in> set S \<and>
               (\<forall>x \<in> set S. doc_timestamp d \<le> doc_timestamp x))) \<and>
           (S = [] \<longrightarrow> result = [])"
proof -
  have MS: "set M \<subseteq> set S" unfolding M S by auto
  have sM: "(sort_key doc_timestamp M = []) = (M = [])"
    by (metis length_sort length_0_conv)
  have sS: "(sort_key doc_timestamp S = []) = (S = [])"
    by (metis length_sort length_0_conv)
  have r: "get_track_data fromisoformat (Some c) args =
      respond (if M = [] then take 1 (sort_key doc_timestamp S)
               else take 1 (rev (sort_key doc_timestamp M)))"
    using av g p
    by (simp add: get_track_data_def find_ascending_def find_descending_def Let_def
        sid [symmetric] M [symmetric] S [symmetric] sM)
  show ?thesis
  proof (cases "M = []")
    case False
    with sM have "take 1 (rev (sort_key doc_timestamp M)) = [last (sort_key doc_timestamp M)]"
      by (simp add: take1_rev)
    with r False last_sort_key [OF False, of doc_timestamp] MS show ?thesis by auto
  next
    case True
    show ?thesis
    proof (cases "S = []")
      case True
      with \<open>M = []\<close> r show ?thesis by auto
    next
      case False
      with sS have "take 1 (sort_key doc_timestamp S) = [hd (sort_key doc_timestamp S)]"
        by (simp add: take1_hd)
      with r True False hd_sort_key [OF False, of doc_timestamp] show ?thesis by auto
    qed
  qed
qed

text \<open>
  The query for a range, on the texts the store compares: with the handle available
  and passing the truth test, and both parameters parsed, the answer holds exactly the documents of the storm whose
  timestamp text lies between the two bounds, both included, in ascending order.
\<close>

lemma range_query_by_text:
  fixes c :: "'f collection"
  assumes av: "available c" "\<not> truth_test_raises c"
    and g: "given (timestamp_arg args) = None" "given (start_arg args) = Some s"
      "given (end_arg args) = Some e"
    and p: "fromisoformat (replace_Z s) = Some start_time"
      "fromisoformat (replace_Z e) = Some end_time"
    and sid: "sid = (case storm_id_arg args of None \<Rightarrow> ''BESTTRACK_2020'' | Some s \<Rightarrow> s)"
    and M: "M = filter (\<lambda>d. match_storm sid d \<and> match_gte (strftime_iso start_time) d \<and>
                 match_lte (strftime_iso end_time) d) (documents c)"
  shows "\<exists>result. get_track_data fromisoformat (Some c) args = respond result \<and>
           mset result = mset M \<and> sorted (map doc_timestamp result)"
proof -
  have "get_track_data fromisoformat (Some c) args = respond (sort_key doc_timestamp M)"
    using av g p
    by (simp add: get_track_data_def find_ascending_def Let_def sid [symmetric] M [symmetric])
  then show ?thesis by (auto simp: sorted_sort_key)
qed

end
